(* ===== verification/Prelude.thy ===== *)
theory Prelude
  imports Complex_Main
begin

text \<open>
  Shared vocabulary of the development: the three-component vectors of the scene
  graph (\<open>THREE.Vector3\<close>), the named collections of definitions that the component
  proofs unfold together, and the generic lemmas on real arithmetic and square roots
  that several components use. JavaScript numbers are modelled as mathematical reals:
  rounding of IEEE doubles is not modelled (see the header of \<open>Spec2Isabelle\<close>).
\<close>

named_theorems vec_defs "definitions of the vector operations, unfolded together"
named_theorems action_defs "definitions of the animation-action operations"
named_theorems ctrl_defs "definitions of the controller's operations"

record vec3 =
  vx :: real
  vy :: real
  vz :: real

type_synonym aid = nat \<comment> \<open>identity of an \<open>AnimationAction\<close> object in the mixer's store\<close>

definition vec :: "real \<Rightarrow> real \<Rightarrow> real \<Rightarrow> vec3" where
  "vec x y z = \<lparr>vx = x, vy = y, vz = z\<rparr>"

lemma vec_sel [simp]: "vx (vec x y z) = x" "vy (vec x y z) = y" "vz (vec x y z) = z"
  by (simp_all add: vec_def)

lemma vec_eq_iff: "((v::vec3) = w) \<longleftrightarrow> vx v = vx w \<and> vy v = vy w \<and> vz v = vz w"
  by (cases v, cases w) simp

text \<open>Horizontal length of a vector: its length in the ground plane \<open>y = 0\<close>.\<close>

definition hlen :: "vec3 \<Rightarrow> real" where
  "hlen v = sqrt ((vx v)\<^sup>2 + (vz v)\<^sup>2)"

lemma hlen_nonneg [simp]: "0 \<le> hlen v"
  by (simp add: hlen_def)

lemma hlen_zero_iff: "hlen v = 0 \<longleftrightarrow> vx v = 0 \<and> vz v = 0"
  by (simp add: hlen_def sum_power2_eq_zero_iff)

lemma sqrt_sum_sq_pos: "(x, z) \<noteq> (0, 0) \<Longrightarrow> 0 < sqrt (x\<^sup>2 + z\<^sup>2 :: real)"
  by (auto simp: sum_power2_gt_zero_iff)

lemma sqrt_sum_sq_square: "(sqrt (x\<^sup>2 + z\<^sup>2 :: real))\<^sup>2 = x\<^sup>2 + z\<^sup>2"
  by simp

text \<open>A rotation in the plane keeps the sum of squares, for any \<open>s, c\<close> on the unit circle.\<close>

lemma rot_sq_sum: "s\<^sup>2 + c\<^sup>2 = 1 \<Longrightarrow> (x * c + z * s)\<^sup>2 + (z * c - x * s)\<^sup>2 = x\<^sup>2 + (z::real)\<^sup>2"
proof -
  assume h: "s\<^sup>2 + c\<^sup>2 = 1"
  have "(x * c + z * s)\<^sup>2 + (z * c - x * s)\<^sup>2 = (x\<^sup>2 + z\<^sup>2) * (s\<^sup>2 + c\<^sup>2)"
    by (simp add: power2_eq_square algebra_simps)
  with h show ?thesis by simp
qed

lemma scaled_unit_hlen:
  assumes "0 < r" and "x\<^sup>2 + z\<^sup>2 = r\<^sup>2"
  shows "sqrt ((x / r * k)\<^sup>2 + (z / r * k)\<^sup>2) = \<bar>k\<bar>"
proof -
  have "(x / r * k)\<^sup>2 + (z / r * k)\<^sup>2 = (x\<^sup>2 + z\<^sup>2) / r\<^sup>2 * k\<^sup>2"
    by (simp add: power_mult_distrib power_divide add_divide_distrib distrib_right)
  also have "\<dots> = k\<^sup>2" using assms by (simp add: power2_eq_square)
  finally show ?thesis by simp
qed

lemma sqrt_scaled: "sqrt ((a * k)\<^sup>2 + (b * k)\<^sup>2) = \<bar>k\<bar> * sqrt (a\<^sup>2 + (b::real)\<^sup>2)"
proof -
  have "(a * k)\<^sup>2 + (b * k)\<^sup>2 = k\<^sup>2 * (a\<^sup>2 + b\<^sup>2)" by (simp add: power_mult_distrib algebra_simps)
  then show ?thesis by (simp add: real_sqrt_mult)
qed

end
