(* ===== verification/Engine.thy ===== *)
theory Engine
  imports Prelude
begin

text \<open>
  Models of the engine primitives that \<open>CharacterControls\<close> calls: the vector and
  quaternion operations of three.js (\<open>Vector3.normalize\<close>, \<open>Vector3.applyAxisAngle\<close>,
  \<open>Quaternion.setFromAxisAngle\<close>, \<open>Quaternion.rotateTowards\<close>), \<open>Math.atan2\<close>, and
  the weight bookkeeping of \<open>AnimationAction\<close> and \<open>AnimationMixer\<close>. None of this is
  code of the repository: each definition follows the library's documented behaviour
  (and its source, for three.js) at the level of detail the controller's properties need.
\<close>

section \<open>Vectors\<close>

definition length_v :: "vec3 \<Rightarrow> real" where
  "length_v v = sqrt ((vx v)\<^sup>2 + (vy v)\<^sup>2 + (vz v)\<^sup>2)"

definition multiply_scalar :: "vec3 \<Rightarrow> real \<Rightarrow> vec3" where
  "multiply_scalar v s = v\<lparr>vx := vx v * s, vy := vy v * s, vz := vz v * s\<rparr>"

definition divide_scalar :: "vec3 \<Rightarrow> real \<Rightarrow> vec3" where
  "divide_scalar v s = multiply_scalar v (1 / s)"

text \<open>\<open>normalize()\<close> is \<open>this.divideScalar(this.length() || 1)\<close>: a zero vector stays zero.\<close>

definition normalize :: "vec3 \<Rightarrow> vec3" where
  "normalize v = divide_scalar v (if length_v v = 0 then 1 else length_v v)"

section \<open>Quaternions and rotation about an axis\<close>

record quat =
  qx :: real
  qy :: real
  qz :: real
  qw :: real

definition set_from_axis_angle :: "vec3 \<Rightarrow> real \<Rightarrow> quat" where
  "set_from_axis_angle axis angle =
     (let s = sin (angle / 2)
      in \<lparr>qx = vx axis * s, qy = vy axis * s, qz = vz axis * s, qw = cos (angle / 2)\<rparr>)"

text \<open>\<open>Vector3.applyQuaternion\<close>: the product \<open>q v q\<^sup>-\<^sup>1\<close>, written out as three.js computes it.\<close>

definition apply_quaternion :: "vec3 \<Rightarrow> quat \<Rightarrow> vec3" where
  "apply_quaternion v q =
     (let x = vx v; y = vy v; z = vz v;
          ix = qw q * x + qy q * z - qz q * y;
          iy = qw q * y + qz q * x - qx q * z;
          iz = qw q * z + qx q * y - qy q * x;
          iw = - qx q * x - qy q * y - qz q * z
      in v\<lparr>vx := ix * qw q + iw * - qx q + iy * - qz q - iz * - qy q,
           vy := iy * qw q + iw * - qy q + iz * - qx q - ix * - qz q,
           vz := iz * qw q + iw * - qz q + ix * - qy q - iy * - qx q\<rparr>)"

definition apply_axis_angle :: "vec3 \<Rightarrow> vec3 \<Rightarrow> real \<Rightarrow> vec3" where
  "apply_axis_angle v axis angle = apply_quaternion v (set_from_axis_angle axis angle)"

text \<open>The reference the quaternion route is compared with: a rotation about the y axis.\<close>

definition rot_y :: "vec3 \<Rightarrow> real \<Rightarrow> vec3" where
  "rot_y v a = v\<lparr>vx := vx v * cos a + vz v * sin a, vz := vz v * cos a - vx v * sin a\<rparr>"

declare length_v_def [vec_defs] multiply_scalar_def [vec_defs] divide_scalar_def [vec_defs]
  normalize_def [vec_defs] rot_y_def [vec_defs]

section \<open>Math.atan2\<close>

text \<open>
  ECMAScript \<open>Math.atan2(y, x)\<close>: the angle of the point \<open>(x, y)\<close>, in \<open>(-\<pi>, \<pi>]\<close>.
  Signed zeros, infinities and NaN are not modelled; \<open>atan2(0, 0)\<close> is \<open>+0\<close>.
\<close>

definition atan2 :: "real \<Rightarrow> real \<Rightarrow> real" where
  "atan2 y x =
     (if 0 < x then arctan (y / x)
      else if x < 0 then (if 0 \<le> y then arctan (y / x) + pi else arctan (y / x) - pi)
      else if 0 < y then pi / 2
      else if y < 0 then - (pi / 2)
      else 0)"

section \<open>Turning towards a heading\<close>

text \<open>
  The model's orientation only ever changes by \<open>rotateTowards\<close> a rotation about the
  y axis, so it is a yaw angle. \<open>wrap_angle\<close> maps an angle into \<open>(-\<pi>, \<pi>]\<close>; the
  signed shortest turn from \<open>a\<close> to \<open>b\<close> is \<open>wrap_angle (b - a)\<close>, whose absolute
  value is \<open>Quaternion.angleTo\<close>. \<open>rotateTowards(q, step)\<close> returns unchanged when the
  angle is 0, and otherwise slerps by \<open>min(1, step / angle)\<close>, which reaches \<open>q\<close>
  when the angle is at most \<open>step\<close> and turns by exactly \<open>step\<close> along the
  shortest arc otherwise.
\<close>

definition wrap_angle :: "real \<Rightarrow> real" where
  "wrap_angle x = x - 2 * pi * of_int \<lceil>(x - pi) / (2 * pi)\<rceil>"

definition rotate_towards :: "real \<Rightarrow> real \<Rightarrow> real \<Rightarrow> real" where
  "rotate_towards cur tgt step =
     (let d = wrap_angle (tgt - cur)
      in if d = 0 then cur else if \<bar>d\<bar> \<le> step then tgt else cur + sgn d * step)"

section \<open>Lemmas: vectors and rotation\<close>

lemma normalize_zero: "length_v v = 0 \<Longrightarrow> normalize v = v"
  by (simp add: vec_defs)

lemma rot_y_hlen: "hlen (rot_y v a) = hlen v"
  by (simp add: hlen_def rot_y_def rot_sq_sum)

lemma rot_y_add: "rot_y (rot_y v a) b = rot_y v (a + b)"
  by (simp add: rot_y_def sin_add cos_add algebra_simps)

lemma apply_quaternion_yaw:
  assumes "c\<^sup>2 + s\<^sup>2 = 1"
  shows "apply_quaternion v \<lparr>qx = 0, qy = s, qz = 0, qw = c\<rparr>
         = v\<lparr>vx := vx v * (c\<^sup>2 - s\<^sup>2) + vz v * (2 * s * c),
             vz := vz v * (c\<^sup>2 - s\<^sup>2) - vx v * (2 * s * c)\<rparr>"
proof -
  have "vy v * c * c + vy v * s * s = vy v * (c\<^sup>2 + s\<^sup>2)"
    by (simp add: power2_eq_square algebra_simps)
  with assms have "vy v * c * c + vy v * s * s = vy v" by simp
  then show ?thesis
    by (simp add: apply_quaternion_def Let_def vec_eq_iff power2_eq_square algebra_simps)
qed

lemma apply_axis_angle_y: "apply_axis_angle v (vec 0 1 0) a = rot_y v a"
proof -
  have "(cos (a / 2))\<^sup>2 + (sin (a / 2))\<^sup>2 = 1" by (simp add: add.commute)
  then have "apply_axis_angle v (vec 0 1 0) a
       = v\<lparr>vx := vx v * ((cos (a/2))\<^sup>2 - (sin (a/2))\<^sup>2) + vz v * (2 * sin (a/2) * cos (a/2)),
           vz := vz v * ((cos (a/2))\<^sup>2 - (sin (a/2))\<^sup>2) - vx v * (2 * sin (a/2) * cos (a/2))\<rparr>"
    by (simp add: apply_axis_angle_def set_from_axis_angle_def apply_quaternion_yaw)
  also have "\<dots> = rot_y v a"
    using cos_double [of "a / 2"] sin_double [of "a / 2"] by (simp add: rot_y_def)
  finally show ?thesis .
qed

lemma length_v_flat: "vy w = 0 \<Longrightarrow> length_v w = hlen w"
  by (simp add: length_v_def hlen_def)

lemma normalize_flat:
  assumes "vy w = 0" "hlen w \<noteq> 0"
  shows "normalize w = w\<lparr>vx := vx w / hlen w, vz := vz w / hlen w\<rparr>"
  using assms by (simp add: normalize_def divide_scalar_def multiply_scalar_def length_v_flat vec_eq_iff)

lemma normalize_flat_hlen:
  assumes "vy w = 0" "hlen w \<noteq> 0"
  shows "hlen (normalize w) = 1"
proof -
  define h where "h = hlen w"
  have h: "0 < h" "(vx w)\<^sup>2 + (vz w)\<^sup>2 = h\<^sup>2"
    using assms hlen_nonneg [of w] by (auto simp: h_def hlen_def sum_power2_gt_zero_iff simp del: hlen_nonneg)
  have "normalize w = w\<lparr>vx := vx w / h, vz := vz w / h\<rparr>"
    using assms by (simp add: normalize_flat h_def)
  then have "hlen (normalize w) = sqrt ((vx w / h)\<^sup>2 + (vz w / h)\<^sup>2)" by (simp add: hlen_def)
  also have "\<dots> = 1" using scaled_unit_hlen [of h "vx w" "vz w" 1] h by simp
  finally show ?thesis .
qed

lemma normalize_keeps_heading:
  assumes "(vx v, vz v) \<noteq> (0, 0)"
  shows "\<exists>k>0. vx (normalize v) = k * vx v \<and> vz (normalize v) = k * vz v"
proof -
  have "0 < (vx v)\<^sup>2 + (vz v)\<^sup>2" using assms by (simp add: sum_power2_gt_zero_iff)
  then have "0 < (vx v)\<^sup>2 + (vy v)\<^sup>2 + (vz v)\<^sup>2" using zero_le_power2 [of "vy v"] by linarith
  then have "0 < length_v v" by (simp add: length_v_def)
  then have "length_v v \<noteq> 0" "0 \<le> length_v v" by simp_all
  then show ?thesis
    by (intro exI [of _ "1 / length_v v"]) (simp add: normalize_def divide_scalar_def multiply_scalar_def)
qed

section \<open>Lemmas: atan2\<close>

lemma atan2_range: "- pi < atan2 y x \<and> atan2 y x \<le> pi"
proof -
  have b: "- (pi / 2) < arctan t" "arctan t < pi / 2" for t
    using arctan_bounded by auto
  consider "0 < x" | "x < 0" "0 \<le> y" | "x < 0" "y < 0" | "x = 0"
    by linarith
  then show ?thesis
  proof cases
    case 1 then show ?thesis using b [of "y / x"] by (simp add: atan2_def)
  next
    case 2
    then have "arctan (y / x) \<le> 0" by (simp add: divide_nonneg_neg)
    with 2 show ?thesis using b [of "y / x"] by (simp add: atan2_def)
  next
    case 3
    then have "0 < arctan (y / x)" by (simp add: divide_neg_neg)
    with 3 show ?thesis using b [of "y / x"] by (simp add: atan2_def)
  qed (use pi_gt_zero in \<open>auto simp: atan2_def; linarith\<close>)
qed

lemma sqrt_one_plus_ratio:
  assumes "x \<noteq> 0" shows "sqrt (1 + (y / x)\<^sup>2) = sqrt (x\<^sup>2 + y\<^sup>2) / \<bar>x\<bar>"
proof -
  have "1 + (y / x)\<^sup>2 = (x\<^sup>2 + y\<^sup>2) / x\<^sup>2"
    using assms by (simp add: power_divide field_simps)
  then show ?thesis by (simp add: real_sqrt_divide)
qed

lemma atan2_polar:
  assumes "(x, y) \<noteq> (0, 0)"
  shows "cos (atan2 y x) = x / sqrt (x\<^sup>2 + y\<^sup>2) \<and> sin (atan2 y x) = y / sqrt (x\<^sup>2 + y\<^sup>2)"
proof -
  have r: "0 < sqrt (x\<^sup>2 + y\<^sup>2)" using assms by (auto simp: sum_power2_gt_zero_iff)
  consider "0 < x" | "x < 0" "0 \<le> y" | "x < 0" "y < 0" | "x = 0" "0 < y" | "x = 0" "y < 0"
    using assms by fastforce
  then show ?thesis
  proof cases
    case 1 then show ?thesis
      by (simp add: atan2_def cos_arctan sin_arctan sqrt_one_plus_ratio)
  next
    case 2 then show ?thesis
      by (simp add: atan2_def cos_arctan sin_arctan sqrt_one_plus_ratio)
  next
    case 3 then show ?thesis
      by (simp add: atan2_def cos_arctan sin_arctan sqrt_one_plus_ratio)
  next
    case 4 then show ?thesis by (simp add: atan2_def)
  next
    case 5 then show ?thesis by (simp add: atan2_def)
  qed
qed

section \<open>Lemmas: wrapping angles and turning\<close>

lemma wrap_angle_range: "- pi < wrap_angle x \<and> wrap_angle x \<le> pi"
proof -
  let ?k = "\<lceil>(x - pi) / (2 * pi)\<rceil>"
  have lo: "of_int ?k - 1 < (x - pi) / (2 * pi)" and hi: "(x - pi) / (2 * pi) \<le> of_int ?k"
    by linarith+
  have p: "0 < 2 * pi" by simp
  from lo have "(of_int ?k - 1) * (2 * pi) < x - pi" using p by (simp add: pos_less_divide_eq)
  moreover have "x - pi \<le> of_int ?k * (2 * pi)" using hi p pos_divide_le_eq by blast
  ultimately show ?thesis by (simp add: wrap_angle_def algebra_simps)
qed

lemma wrap_angle_id: "- pi < x \<Longrightarrow> x \<le> pi \<Longrightarrow> wrap_angle x = x"
proof -
  assume a: "- pi < x" "x \<le> pi"
  have "(x - pi) / (2 * pi) \<le> 0" using a by (simp add: divide_nonpos_pos)
  moreover have "-1 < (x - pi) / (2 * pi)" using a by (simp add: less_divide_eq)
  ultimately have "\<lceil>(x - pi) / (2 * pi)\<rceil> = 0" by (simp add: ceiling_eq_iff)
  then show ?thesis by (simp add: wrap_angle_def)
qed

lemma wrap_angle_shift: "wrap_angle (x + 2 * pi * of_int n) = wrap_angle x"
proof -
  have "(x + 2 * pi * of_int n - pi) / (2 * pi) = (x - pi) / (2 * pi) + of_int n"
    by (simp add: field_simps)
  then have "\<lceil>(x + 2 * pi * of_int n - pi) / (2 * pi)\<rceil> = \<lceil>(x - pi) / (2 * pi)\<rceil> + n"
    by simp
  then show ?thesis by (simp add: wrap_angle_def algebra_simps)
qed

lemma wrap_angle_eq: "\<exists>n::int. x = wrap_angle x + 2 * pi * of_int n"
  by (rule exI [of _ "\<lceil>(x - pi) / (2 * pi)\<rceil>"]) (simp add: wrap_angle_def)

lemma wrap_angle_wrap: "wrap_angle (wrap_angle x + y) = wrap_angle (x + y)"
proof -
  obtain n :: int where n: "x = wrap_angle x + 2 * pi * of_int n" using wrap_angle_eq by blast
  have "wrap_angle (x + y) = wrap_angle ((wrap_angle x + y) + 2 * pi * of_int n)"
    by (subst n) (simp add: algebra_simps)
  then show ?thesis by (simp add: wrap_angle_shift)
qed

lemma rotate_towards_progress:
  assumes "0 \<le> step"
  shows "\<bar>wrap_angle (tgt - rotate_towards cur tgt step)\<bar> = max 0 (\<bar>wrap_angle (tgt - cur)\<bar> - step)"
proof -
  let ?d = "wrap_angle (tgt - cur)"
  have r: "- pi < ?d" "?d \<le> pi" using wrap_angle_range by blast+
  consider "?d = 0" | "?d \<noteq> 0" "\<bar>?d\<bar> \<le> step" | "\<bar>?d\<bar> > step" by linarith
  then show ?thesis
  proof cases
    case 1 then show ?thesis using assms by (simp add: rotate_towards_def)
  next
    case 2 then show ?thesis by (simp add: rotate_towards_def wrap_angle_id)
  next
    case 3
    then have ne: "?d \<noteq> 0" using assms by auto
    have a: "tgt - (cur + sgn ?d * step) = (tgt - cur) + - (sgn ?d * step)" by simp
    have b: "?d - sgn ?d * step = ?d + - (sgn ?d * step)" by simp
    have "wrap_angle (tgt - (cur + sgn ?d * step)) = wrap_angle (?d - sgn ?d * step)"
      by (simp only: a b wrap_angle_wrap)
    also have "\<dots> = ?d - sgn ?d * step"
      using 3 r assms by (intro wrap_angle_id) (auto simp: sgn_if)
    finally show ?thesis using 3 ne assms by (auto simp: rotate_towards_def sgn_if)
  qed
qed

lemma rotate_towards_turn:
  assumes "0 \<le> step" "step < pi"
  shows "\<bar>wrap_angle (rotate_towards cur tgt step - cur)\<bar> \<le> step"
proof -
  let ?d = "wrap_angle (tgt - cur)"
  have r: "- pi < ?d" "?d \<le> pi" using wrap_angle_range by blast+
  consider "?d = 0" | "?d \<noteq> 0" "\<bar>?d\<bar> \<le> step" | "\<bar>?d\<bar> > step" by linarith
  then show ?thesis
  proof cases
    case 1 then show ?thesis using assms by (simp add: rotate_towards_def wrap_angle_id)
  next
    case 2 then show ?thesis by (simp add: rotate_towards_def)
  next
    case 3
    with assms pi_gt_zero have "wrap_angle (sgn ?d * step) = sgn ?d * step"
      by (intro wrap_angle_id) (auto simp: sgn_if)
    with 3 assms show ?thesis by (auto simp: rotate_towards_def Let_def sgn_if)
  qed
qed

end
