(* ===== verification/Keys.thy ===== *)
theory Keys
  imports Engine
begin

text \<open>
  The keyboard input of \<open>CharacterControls.update\<close>: \<open>keysPressed\<close> is an untyped
  object (\<open>any\<close>) read at string keys, so it is a map from strings to JavaScript values.
  The key names and the list \<open>DIRECTIONS\<close> come from \<open>./utils\<close>, which is not among
  the sources; they are modelled from the spec (the four movement keys). The two readers of
  the map are \<open>directionPressed\<close> (\<open>keysPressed[key] == true\<close>, loose equality) and
  \<open>directionOffset\<close> (truthiness of \<open>keysPressed[W]\<close> and so on).
\<close>

datatype jsval = JUndefined | JNull | JBool bool | JNum real

type_synonym keys = "string \<Rightarrow> jsval"

text \<open>JavaScript truthiness (NaN is not a real, so every number but 0 is truthy).\<close>

definition truthy :: "jsval \<Rightarrow> bool" where
  "truthy v = (case v of JUndefined \<Rightarrow> False | JNull \<Rightarrow> False | JBool b \<Rightarrow> b | JNum n \<Rightarrow> n \<noteq> 0)"

text \<open>\<open>v == true\<close>: \<open>true\<close> converts to the number 1; \<open>undefined\<close> and \<open>null\<close> equal
  only each other.\<close>

definition loose_eq_true :: "jsval \<Rightarrow> bool" where
  "loose_eq_true v = (case v of JBool b \<Rightarrow> b | JNum n \<Rightarrow> n = 1 | _ \<Rightarrow> False)"

definition W :: string where "W = ''w''"
definition A :: string where "A = ''a''"
definition S :: string where "S = ''s''"
definition D :: string where "D = ''d''"

definition DIRECTIONS :: "string list" where
  "DIRECTIONS = [W, A, S, D]"

text \<open>\<open>DIRECTIONS.some((key) => keysPressed[key] == true)\<close>\<close>

definition direction_pressed :: "keys \<Rightarrow> bool" where
  "direction_pressed keys = list_ex (\<lambda>key. loose_eq_true (keys key)) DIRECTIONS"

text \<open>\<open>directionOffset(keysPressed)\<close>, branch for branch.\<close>

definition direction_offset :: "keys \<Rightarrow> real" where
  "direction_offset keys =
     (if truthy (keys W) then
        (if truthy (keys A) then pi / 4
         else if truthy (keys D) then - pi / 4
         else 0)
      else if truthy (keys S) then
        (if truthy (keys A) then pi / 4 + pi / 2
         else if truthy (keys D) then - pi / 4 - pi / 2
         else pi)
      else if truthy (keys A) then pi / 2
      else if truthy (keys D) then - pi / 2
      else 0)"

section \<open>The movement intent\<close>

text \<open>
  The abstract specification of \<open>directionOffset\<close>: the pressed keys describe an intent
  vector in the camera's frame, one unit forward (W) or back (S) and one unit to the
  left (A) or right (D), forward winning over back and left over right as the code's
  branch order makes them; the offset is the angle of that vector.
\<close>

definition intent_fwd :: "keys \<Rightarrow> real" where
  "intent_fwd keys = (if truthy (keys W) then 1 else if truthy (keys S) then -1 else 0)"

definition intent_side :: "keys \<Rightarrow> real" where
  "intent_side keys = (if truthy (keys A) then 1 else if truthy (keys D) then -1 else 0)"

text \<open>A key map as the application fills it: every value a boolean or absent.\<close>

definition bool_keys :: "keys \<Rightarrow> bool" where
  "bool_keys keys = (\<forall>k. keys k = JUndefined \<or> (\<exists>b. keys k = JBool b))"

text \<open>The key map with exactly the given keys held down.\<close>

definition press :: "string list \<Rightarrow> keys" where
  "press ks = (\<lambda>k. if k \<in> set ks then JBool True else JUndefined)"

lemma key_names_distinct [simp]:
  "W \<noteq> A" "W \<noteq> S" "W \<noteq> D" "A \<noteq> S" "A \<noteq> D" "S \<noteq> D"
  "A \<noteq> W" "S \<noteq> W" "D \<noteq> W" "S \<noteq> A" "D \<noteq> A" "D \<noteq> S"
  by (simp_all add: W_def A_def S_def D_def)

lemma truthy_simps [simp]:
  "truthy JUndefined = False" "truthy JNull = False" "truthy (JBool b) = b"
  "truthy (JNum n) = (n \<noteq> 0)"
  by (simp_all add: truthy_def)

lemma loose_eq_true_simps [simp]:
  "loose_eq_true JUndefined = False" "loose_eq_true JNull = False"
  "loose_eq_true (JBool b) = b" "loose_eq_true (JNum n) = (n = 1)"
  by (simp_all add: loose_eq_true_def)

lemma direction_pressed_iff:
  "direction_pressed keys \<longleftrightarrow>
     loose_eq_true (keys W) \<or> loose_eq_true (keys A) \<or> loose_eq_true (keys S) \<or> loose_eq_true (keys D)"
  by (simp add: direction_pressed_def DIRECTIONS_def)

lemma bool_keys_truthy: "bool_keys keys \<Longrightarrow> loose_eq_true (keys k) = truthy (keys k)"
  unfolding bool_keys_def by (metis loose_eq_true_simps(1,3) truthy_simps(1,3))

lemma press_bool_keys [simp]: "bool_keys (press ks)"
  by (auto simp: bool_keys_def press_def)

lemma arctan_minus_one: "arctan (-1) = - (pi / 4)"
  by (simp add: arctan_minus arctan_one)

section \<open>Properties of the key readers\<close>

text \<open>
  C3. \<open>directionOffset\<close> refines its abstract specification: for every key map, the offset
  its nine branches compute is \<open>Math.atan2\<close> of the intent vector, so every diagonal,
  straight and backward combination gets the angle of the direction the keys ask for.
\<close>

theorem direction_offset_atan2:
  "direction_offset keys = atan2 (intent_side keys) (intent_fwd keys)"
  by (auto simp: direction_offset_def intent_fwd_def intent_side_def atan2_def
      arctan_one arctan_minus_one)

text \<open>
  C28. For key maps holding booleans, as the application fills them, a direction counts as
  pressed exactly when the intent vector is not zero, so the character never walks
  without a direction to walk in.
\<close>

theorem direction_pressed_intent:
  assumes "bool_keys keys"
  shows "direction_pressed keys \<longleftrightarrow> (intent_fwd keys, intent_side keys) \<noteq> (0, 0)"
  using assms by (auto simp: direction_pressed_iff bool_keys_truthy intent_fwd_def intent_side_def)

theorem direction_pressed_intent_witness:
  "bool_keys (press [W, S]) \<and>
   (direction_pressed (press [W, S]) \<longleftrightarrow>
      (intent_fwd (press [W, S]), intent_side (press [W, S])) \<noteq> (0, 0))"
  using direction_pressed_intent [of "press [W, S]"] by simp

end
