(* ===== verification/Animation.thy ===== *)
theory Animation
  imports Prelude
begin

text \<open>
  The part of three.js's \<open>AnimationAction\<close> and \<open>AnimationMixer\<close> that the controller
  drives: whether an action is scheduled in the mixer (\<open>play()\<close>), whether it is
  enabled, and its weight interpolant (\<open>fadeIn\<close>, \<open>fadeOut\<close>, \<open>reset\<close>), together
  with the mixer clock that \<open>mixer.update(delta)\<close> advances, and each action's clip-local
  time (\<open>action.time\<close>), which \<open>reset\<close> sets to 0 and the mixer advances with the default
  \<open>LoopRepeat\<close> looping. The pose blending is not modelled: it is output, read by nothing. Actions are
  objects, so the mixer holds them in a store indexed by \<open>aid\<close>, and the controller's
  \<open>animationsMap\<close> maps clip names to these identities (two names may share an action).
\<close>

record action =
  act_enabled :: bool
  act_active :: bool
  act_fade :: "(real \<times> real \<times> real \<times> real) option"
    \<comment> \<open>\<open>_weightInterpolant\<close>: \<open>(t\<^sub>0, w\<^sub>0, t\<^sub>1, w\<^sub>1)\<close>, or \<open>null\<close>\<close>
  act_time :: real      \<comment> \<open>\<open>time\<close>, the local time in the clip\<close>
  act_duration :: real  \<comment> \<open>\<open>_clip.duration\<close>\<close>

text \<open>A fresh action from \<open>mixer.clipAction(clip)\<close> for a clip of the given duration:
  enabled, not playing, no fade, at the start of the clip.\<close>

definition new_action :: "real \<Rightarrow> action" where
  "new_action duration =
     \<lparr>act_enabled = True, act_active = False, act_fade = None, act_time = 0, act_duration = duration\<rparr>"

definition fresh_action :: "action \<Rightarrow> bool" where
  "fresh_action a = (act_enabled a \<and> \<not> act_active a \<and> act_fade a = None \<and> act_time a = 0)"

definition play_action :: "action \<Rightarrow> action" where
  "play_action a = a\<lparr>act_active := True\<rparr>"

text \<open>\<open>reset()\<close> re-enables the action, rewinds it to the start of the clip
  (\<open>this.time = 0\<close>) and stops any fading (\<open>stopFading()\<close>).\<close>

definition reset_action :: "action \<Rightarrow> action" where
  "reset_action a = a\<lparr>act_enabled := True, act_time := 0, act_fade := None\<rparr>"

definition schedule_fading :: "real \<Rightarrow> real \<Rightarrow> real \<Rightarrow> real \<Rightarrow> action \<Rightarrow> action" where
  "schedule_fading now duration weight_now weight_then a =
     a\<lparr>act_fade := Some (now, weight_now, now + duration, weight_then)\<rparr>"

definition fade_in :: "real \<Rightarrow> real \<Rightarrow> action \<Rightarrow> action" where
  "fade_in now duration = schedule_fading now duration 0 1"

definition fade_out :: "real \<Rightarrow> real \<Rightarrow> action \<Rightarrow> action" where
  "fade_out now duration = schedule_fading now duration 1 0"

text \<open>\<open>LinearInterpolant\<close> over the two samples, constant outside them.\<close>

definition interp :: "real \<times> real \<times> real \<times> real \<Rightarrow> real \<Rightarrow> real" where
  "interp f t =
     (case f of (t0, w0, t1, w1) \<Rightarrow>
        if t \<le> t0 then w0 else if t1 \<le> t then w1 else w0 + (w1 - w0) * (t - t0) / (t1 - t0))"

text \<open>The effective weight of an action at mixer time \<open>t\<close> (\<open>_updateWeight\<close>; the base
  weight is 1, the controller never changes it).\<close>

definition weight :: "action \<Rightarrow> real \<Rightarrow> real" where
  "weight a t =
     (if act_active a \<and> act_enabled a
      then (case act_fade a of None \<Rightarrow> 1 | Some f \<Rightarrow> interp f t) else 0)"

text \<open>The bookkeeping of \<open>_updateWeight\<close> at time \<open>t\<close>: a fade that has ended is stopped,
  and an action faded to 0 is disabled.\<close>

definition update_weight :: "real \<Rightarrow> action \<Rightarrow> action" where
  "update_weight t a =
     (if act_active a \<and> act_enabled a
      then (case act_fade a of
              None \<Rightarrow> a
            | Some (t0, w0, t1, w1) \<Rightarrow>
                if t1 < t then a\<lparr>act_fade := None, act_enabled := (w1 \<noteq> 0)\<rparr> else a)
      else a)"

text \<open>The clock part of \<open>AnimationAction._update(time, deltaTime)\<close> with the default
  \<open>LoopRepeat\<close>, infinite repetitions and time scale 1: an enabled action advances its clip
  time by \<open>deltaTime\<close> (\<open>_updateTime\<close>), and a time that leaves \<open>[0, duration)\<close> is wrapped
  back by whole loops (\<open>time -= duration * Math.floor(time / duration)\<close>); a disabled one only
  updates its weight.\<close>

definition update_time :: "real \<Rightarrow> action \<Rightarrow> action" where
  "update_time delta a =
     (if act_active a \<and> act_enabled a then
        (let time = act_time a + delta; duration = act_duration a
         in if duration \<le> time \<or> time < 0
            then a\<lparr>act_time := time - duration * of_int \<lfloor>time / duration\<rfloor>\<rparr>
            else a\<lparr>act_time := time\<rparr>)
      else a)"

record mixer =
  mixer_time :: real
  actions :: "aid \<Rightarrow> action"

text \<open>\<open>mixer.update(delta)\<close>: advance the clock, then update every scheduled action, its
  clip time first and its weight at the new time after.\<close>

definition mixer_update :: "real \<Rightarrow> mixer \<Rightarrow> mixer" where
  "mixer_update delta m =
     (let t = mixer_time m + delta
      in m\<lparr>mixer_time := t, actions := (\<lambda>i. update_weight t (update_time delta (actions m i)))\<rparr>)"

declare play_action_def [action_defs] reset_action_def [action_defs] schedule_fading_def [action_defs]
  fade_in_def [action_defs] fade_out_def [action_defs]

text \<open>Fades the controller can schedule: a positive duration between the weights 0 and 1.\<close>

definition fade_ok :: "action \<Rightarrow> bool" where
  "fade_ok a =
     (case act_fade a of None \<Rightarrow> True
      | Some (t0, w0, t1, w1) \<Rightarrow> t0 < t1 \<and> w0 \<in> {0, 1} \<and> w1 \<in> {0, 1})"

section \<open>Lemmas\<close>

lemma interp_mid:
  "t0 < t \<Longrightarrow> t < t1 \<Longrightarrow> interp (t0, w0, t1, w1) t = w0 + (w1 - w0) * ((t - t0) / (t1 - t0))"
  by (simp add: interp_def)

lemma interp_cross: "t0 < t1 \<Longrightarrow> interp (t0, 1, t1, 0) t + interp (t0, 0, t1, 1) t = 1"
proof (cases "t \<le> t0 \<or> t1 \<le> t")
  case False
  define r where "r = (t - t0) / (t1 - t0)"
  from False have "interp (t0, 1, t1, 0) t = 1 - r" "interp (t0, 0, t1, 1) t = r"
    using interp_mid [of t0 t t1, folded r_def] by simp_all
  then show ?thesis by simp
qed (auto simp: interp_def)

lemma weight_update_weight [simp]: "fade_ok a \<Longrightarrow> weight (update_weight t a) t = weight a t"
  by (auto simp: fade_ok_def weight_def update_weight_def interp_def split: option.splits)

lemma update_weight_active [simp]: "act_active (update_weight t a) = act_active a"
  by (simp add: update_weight_def split: option.splits prod.splits)

lemma fade_ok_update_weight: "fade_ok a \<Longrightarrow> fade_ok (update_weight t a)"
  by (auto simp: fade_ok_def update_weight_def split: option.splits)

lemma fade_ok_ops [simp]:
  "fade_ok (play_action a) = fade_ok a" "fade_ok (reset_action a)"
  "0 < d \<Longrightarrow> fade_ok (fade_in now d a)" "0 < d \<Longrightarrow> fade_ok (fade_out now d a)"
  by (simp_all add: fade_ok_def action_defs)

lemma fresh_new_action [simp]: "fresh_action (new_action d)"
  by (simp add: fresh_action_def new_action_def)

lemma update_time_sel [simp]:
  "act_enabled (update_time delta a) = act_enabled a" "act_active (update_time delta a) = act_active a"
  "act_fade (update_time delta a) = act_fade a" "act_duration (update_time delta a) = act_duration a"
  by (simp_all add: update_time_def Let_def)

lemma update_weight_clock [simp]:
  "act_time (update_weight t a) = act_time a" "act_duration (update_weight t a) = act_duration a"
  by (simp_all add: update_weight_def split: option.splits prod.splits)

lemma update_weight_update_time [simp]:
  "act_enabled (update_weight t (update_time delta a)) = act_enabled (update_weight t a)"
  "act_fade (update_weight t (update_time delta a)) = act_fade (update_weight t a)"
  by (simp_all add: update_weight_def split: option.splits prod.splits)

lemma weight_update_time [simp]: "weight (update_time delta a) t = weight a t"
  by (simp add: weight_def)

lemma fade_ok_update_time [simp]: "fade_ok (update_time delta a) = fade_ok a"
  by (simp add: fade_ok_def)

end
