(* ===== verification/Controls.thy ===== *)
theory Controls
  imports Keys Animation
begin

text \<open>
  The class \<open>CharacterControls\<close> of \<open>src/src/characterControls.ts\<close>. Its state is
  the record \<open>ctrl\<close>: the fields of the class, with the objects it mutates (the model's
  position and orientation, the camera's position, the mixer and its actions) inlined.
  \<open>update\<close> returns \<open>Inr\<close> of the new state, or \<open>Inl (TypeError, s)\<close> when the
  code throws, \<open>s\<close> holding the effects performed before the throw.
\<close>

datatype js_error = TypeError

record ctrl =
  model_pos :: vec3          \<comment> \<open>\<open>model.position\<close>\<close>
  model_yaw :: real          \<comment> \<open>\<open>model.quaternion\<close>, a rotation about the y axis\<close>
  anim_mixer :: mixer        \<comment> \<open>\<open>mixer\<close> and the actions it drives\<close>
  animations_map :: "string \<rightharpoonup> aid"
  camera_pos :: vec3         \<comment> \<open>\<open>camera.position\<close>\<close>
  camera_dir :: vec3         \<comment> \<open>the camera's forward axis, set by the orbit controls\<close>
  camera_target :: vec3      \<comment> \<open>\<open>cameraTarget\<close>, the same object as \<open>orbitControl.target\<close>\<close>
  toggle_run :: bool
  current_action :: string
  walk_direction :: vec3
  rotate_quarternion :: real \<comment> \<open>\<open>rotateQuarternion\<close>, as its yaw angle\<close>

definition fade_duration :: real where "fade_duration = 0.2"
definition run_velocity :: real where "run_velocity = 5"
definition walk_velocity :: real where "walk_velocity = 2"
definition rotate_angle :: vec3 where "rotate_angle = vec 0 1 0"
definition turn_step :: real where "turn_step = 0.2"

text \<open>Applying \<open>f\<close> to the action object with identity \<open>i\<close>.\<close>

definition mixer_act :: "aid \<Rightarrow> (action \<Rightarrow> action) \<Rightarrow> mixer \<Rightarrow> mixer" where
  "mixer_act i f m = m\<lparr>actions := (actions m)(i := f (actions m i))\<rparr>"

section \<open>The private helper \<open>updateCameraTarget\<close>\<close>

definition update_camera_target :: "real \<Rightarrow> real \<Rightarrow> ctrl \<Rightarrow> ctrl" where
  "update_camera_target move_x move_z c =
     (let cp = camera_pos c; mp = model_pos c
      in c\<lparr>camera_pos := cp\<lparr>vx := vx cp + move_x, vz := vz cp + move_z\<rparr>,
           camera_target := (camera_target c)\<lparr>vx := vx mp, vy := vy mp + 1, vz := vz mp\<rparr>\<rparr>)"

section \<open>Construction and \<open>switchRunToggle\<close>\<close>

text \<open>
  The constructor stores its arguments, plays the action registered under the initial
  action's name (the \<open>forEach\<close> visits each key once, and keys are distinct), and aims
  the camera target at the model. The scratch fields start as the class initialises
  them.
\<close>

definition construct ::
  "vec3 \<Rightarrow> real \<Rightarrow> mixer \<Rightarrow> (string \<rightharpoonup> aid) \<Rightarrow> vec3 \<Rightarrow> vec3 \<Rightarrow> string \<Rightarrow> ctrl" where
  "construct mpos myaw mx anims cpos cdir cur =
     update_camera_target 0 0
       \<lparr>model_pos = mpos, model_yaw = myaw,
        anim_mixer = (case anims cur of None \<Rightarrow> mx | Some i \<Rightarrow> mixer_act i play_action mx),
        animations_map = anims, camera_pos = cpos, camera_dir = cdir,
        camera_target = vec 0 0 0, toggle_run = True, current_action = cur,
        walk_direction = vec 0 0 0, rotate_quarternion = 0\<rparr>"

definition switch_run_toggle :: "ctrl \<Rightarrow> ctrl" where
  "switch_run_toggle c = c\<lparr>toggle_run := \<not> toggle_run c\<rparr>"

section \<open>\<open>update\<close>\<close>

text \<open>Lines 59--66: the animation the keys and the toggle select.\<close>

definition select_play :: "bool \<Rightarrow> bool \<Rightarrow> string" where
  "select_play direction_pressed' toggle =
     (if direction_pressed' \<and> toggle then ''Run''
      else if direction_pressed' then ''Walk''
      else ''Idle'')"

text \<open>
  Lines 70--76: both actions are looked up first; \<open>current.fadeOut\<close> throws when the
  current name is missing, and \<open>toPlay.reset()\<close> throws when the new one is, after the
  current action has already been faded out.
\<close>

definition transition :: "string \<Rightarrow> ctrl \<Rightarrow> (js_error \<times> ctrl) + ctrl" where
  "transition play c =
     (let to_play = animations_map c play;
          current = animations_map c (current_action c);
          now = mixer_time (anim_mixer c)
      in case current of
           None \<Rightarrow> Inl (TypeError, c)
         | Some i \<Rightarrow>
             (let c1 = c\<lparr>anim_mixer := mixer_act i (fade_out now fade_duration) (anim_mixer c)\<rparr>
              in case to_play of
                   None \<Rightarrow> Inl (TypeError, c1)
                 | Some j \<Rightarrow>
                     Inr (c1\<lparr>anim_mixer := mixer_act j
                                 (play_action \<circ> fade_in now fade_duration \<circ> reset_action) (anim_mixer c1),
                             current_action := play\<rparr>)))"

text \<open>Lines 89--92: the heading from the model to the camera, in the ground plane.\<close>

definition angle_y_camera_direction :: "ctrl \<Rightarrow> real" where
  "angle_y_camera_direction c =
     atan2 (vx (camera_pos c) - vx (model_pos c)) (vz (camera_pos c) - vz (model_pos c))"

text \<open>Lines 106--111: \<open>getWorldDirection\<close> (the normalised forward axis), flattened,
  normalised and turned by the offset.\<close>

definition walk_dir :: "vec3 \<Rightarrow> real \<Rightarrow> vec3" where
  "walk_dir cdir direction_offset' =
     apply_axis_angle (normalize ((normalize cdir)\<lparr>vy := 0\<rparr>)) rotate_angle direction_offset'"

definition velocity :: "string \<Rightarrow> real" where
  "velocity current = (if current = ''Run'' then run_velocity else walk_velocity)"

text \<open>Lines 89--122: turn the model, then move model and camera.\<close>

definition move :: "real \<Rightarrow> keys \<Rightarrow> ctrl \<Rightarrow> ctrl" where
  "move delta keys c =
     (let angle = angle_y_camera_direction c;
          off = direction_offset keys;
          target = angle + off;
          wd = walk_dir (camera_dir c) off;
          v = velocity (current_action c);
          move_x = vx wd * v * delta;
          move_z = vz wd * v * delta;
          mp = model_pos c
      in update_camera_target move_x move_z
           (c\<lparr>rotate_quarternion := target,
              model_yaw := rotate_towards (model_yaw c) target turn_step,
              walk_direction := wd,
              model_pos := mp\<lparr>vx := vx mp + move_x, vz := vz mp + move_z\<rparr>\<rparr>))"

text \<open>Lines 78--123, run once the selection is settled: advance the mixer, then turn
  and move when the current action is a moving one.\<close>

definition after_transition :: "real \<Rightarrow> keys \<Rightarrow> ctrl \<Rightarrow> ctrl" where
  "after_transition delta keys c1 =
     (let c2 = c1\<lparr>anim_mixer := mixer_update delta (anim_mixer c1)\<rparr>
      in if current_action c2 = ''Run'' \<or> current_action c2 = ''Walk'' then move delta keys c2 else c2)"

definition update :: "real \<Rightarrow> keys \<Rightarrow> ctrl \<Rightarrow> (js_error \<times> ctrl) + ctrl" where
  "update delta keys c =
     (let play = select_play (direction_pressed keys) (toggle_run c)
      in case (if current_action c \<noteq> play then transition play c else Inr c) of
           Inl e \<Rightarrow> Inl e
         | Inr c1 \<Rightarrow> Inr (after_transition delta keys c1))"

section \<open>Invariants and example states\<close>

text \<open>The registry holds an action for every name \<open>update\<close> can select and for the
  current one: what the spec asks the constructor to check, and the code does not.\<close>

definition registry_ok :: "ctrl \<Rightarrow> bool" where
  "registry_ok c = ({''Idle'', ''Walk'', ''Run'', current_action c} \<subseteq> dom (animations_map c))"

text \<open>The orbit target sits one unit above the model.\<close>

definition target_tracks :: "ctrl \<Rightarrow> bool" where
  "target_tracks c =
     (camera_target c = vec (vx (model_pos c)) (vy (model_pos c) + 1) (vz (model_pos c)))"

text \<open>The horizontal offset from the model to the camera.\<close>

definition cam_offset :: "ctrl \<Rightarrow> real \<times> real" where
  "cam_offset c = (vx (camera_pos c) - vx (model_pos c), vz (camera_pos c) - vz (model_pos c))"

text \<open>A scene as the application builds it: three clips, the camera behind the model
  looking along \<open>-z\<close>, starting in \<open>Idle\<close>.\<close>

definition demo_anims :: "string \<rightharpoonup> aid" where
  "demo_anims = [''Idle'' \<mapsto> 0, ''Walk'' \<mapsto> 1, ''Run'' \<mapsto> 2]"

definition demo_mixer :: mixer where
  "demo_mixer = \<lparr>mixer_time = 0, actions = (\<lambda>_. new_action 1)\<rparr>"

definition demo_ctrl :: ctrl where
  "demo_ctrl = construct (vec 0 0 0) 0 demo_mixer demo_anims (vec 0 2 5) (vec 0 0 (-1)) ''Idle''"

declare update_camera_target_def [ctrl_defs] switch_run_toggle_def [ctrl_defs]
  select_play_def [ctrl_defs] transition_def [ctrl_defs] move_def [ctrl_defs]
  update_def [ctrl_defs] mixer_act_def [ctrl_defs] after_transition_def [ctrl_defs]

section \<open>Lemmas\<close>

lemma update_camera_target_frame [simp]:
  "model_pos (update_camera_target x z c) = model_pos c"
  "model_yaw (update_camera_target x z c) = model_yaw c"
  "anim_mixer (update_camera_target x z c) = anim_mixer c"
  "animations_map (update_camera_target x z c) = animations_map c"
  "camera_dir (update_camera_target x z c) = camera_dir c"
  "toggle_run (update_camera_target x z c) = toggle_run c"
  "current_action (update_camera_target x z c) = current_action c"
  "rotate_quarternion (update_camera_target x z c) = rotate_quarternion c"
  "walk_direction (update_camera_target x z c) = walk_direction c"
  by (simp_all add: update_camera_target_def Let_def)

lemma move_frame [simp]:
  "anim_mixer (move delta keys c) = anim_mixer c"
  "animations_map (move delta keys c) = animations_map c"
  "camera_dir (move delta keys c) = camera_dir c"
  "toggle_run (move delta keys c) = toggle_run c"
  "current_action (move delta keys c) = current_action c"
  by (simp_all add: move_def Let_def)

lemma transition_Inr:
  assumes "transition p c = Inr c'"
  shows "current_action c' = p \<and> animations_map c' = animations_map c \<and> toggle_run c' = toggle_run c
    \<and> model_pos c' = model_pos c \<and> model_yaw c' = model_yaw c \<and> camera_pos c' = camera_pos c
    \<and> camera_dir c' = camera_dir c \<and> camera_target c' = camera_target c"
  using assms by (auto simp: transition_def Let_def split: option.splits)

lemma transition_ok:
  assumes "animations_map c (current_action c) = Some i" "animations_map c p = Some j"
  shows "transition p c = Inr (c\<lparr>anim_mixer := mixer_act j
            (play_action \<circ> fade_in (mixer_time (anim_mixer c)) fade_duration \<circ> reset_action)
            (mixer_act i (fade_out (mixer_time (anim_mixer c)) fade_duration) (anim_mixer c)),
          current_action := p\<rparr>)"
  using assms by (simp add: transition_def Let_def mixer_act_def)

lemma update_cases:
  "update delta keys c =
     (let play = select_play (direction_pressed keys) (toggle_run c)
      in if current_action c = play then Inr (after_transition delta keys c)
         else case transition play c of Inl e \<Rightarrow> Inl e | Inr c1 \<Rightarrow> Inr (after_transition delta keys c1))"
  by (simp add: update_def Let_def split: sum.splits)

lemma after_transition_frame [simp]:
  "current_action (after_transition delta keys c) = current_action c"
  "animations_map (after_transition delta keys c) = animations_map c"
  "toggle_run (after_transition delta keys c) = toggle_run c"
  "camera_dir (after_transition delta keys c) = camera_dir c"
  "anim_mixer (after_transition delta keys c) = mixer_update delta (anim_mixer c)"
  by (simp_all add: after_transition_def Let_def)

lemma update_Inr:
  assumes "update delta keys c = Inr c'"
  obtains c1 where "c' = after_transition delta keys c1"
    "current_action c1 = select_play (direction_pressed keys) (toggle_run c)"
    "animations_map c1 = animations_map c" "toggle_run c1 = toggle_run c"
    "model_pos c1 = model_pos c" "model_yaw c1 = model_yaw c" "camera_pos c1 = camera_pos c"
    "camera_dir c1 = camera_dir c" "camera_target c1 = camera_target c"
proof (cases "current_action c = select_play (direction_pressed keys) (toggle_run c)")
  case True
  with assms show ?thesis by (intro that [of c]) (simp_all add: update_cases Let_def)
next
  case False
  with assms obtain c1 where t: "transition (select_play (direction_pressed keys) (toggle_run c)) c = Inr c1"
    and "c' = after_transition delta keys c1"
    by (auto simp: update_cases Let_def split: sum.splits)
  with transition_Inr [OF t] show ?thesis by (intro that [of c1]) simp_all
qed

text \<open>
  C2. Selection is level-triggered: after every successful \<open>update\<close> the current action is
  \<open>Run\<close>, \<open>Walk\<close> or \<open>Idle\<close> as the keys pressed in this frame and the run toggle
  select, whatever the action was before.
\<close>

theorem update_selects_action:
  assumes "update delta keys c = Inr c'"
  shows "current_action c' = select_play (direction_pressed keys) (toggle_run c)"
  using assms by (rule update_Inr) simp

lemma update_Inr_frame:
  assumes "update delta keys c = Inr c'"
  shows "animations_map c' = animations_map c \<and> toggle_run c' = toggle_run c
    \<and> camera_dir c' = camera_dir c
    \<and> current_action c' = select_play (direction_pressed keys) (toggle_run c)"
  using assms by (rule update_Inr) simp

lemma select_play_cases: "select_play d t \<in> {''Idle'', ''Walk'', ''Run''}"
  by (simp add: select_play_def)

lemma update_Inr_exists:
  assumes "registry_ok c"
  shows "\<exists>c'. update delta keys c = Inr c'"
proof -
  let ?p = "select_play (direction_pressed keys) (toggle_run c)"
  have "?p \<in> dom (animations_map c)" "current_action c \<in> dom (animations_map c)"
    using assms select_play_cases [of "direction_pressed keys" "toggle_run c"]
    by (auto simp: registry_ok_def)
  then obtain i j where "animations_map c (current_action c) = Some i" "animations_map c ?p = Some j"
    by blast
  then show ?thesis
    by (cases "current_action c = ?p") (auto simp: update_cases Let_def transition_ok)
qed

lemma registry_ok_update:
  assumes "registry_ok c" and "update delta keys c = Inr c'"
  shows "registry_ok c'"
  using update_Inr_frame [OF assms(2)] assms(1)
    select_play_cases [of "direction_pressed keys" "toggle_run c"]
  by (auto simp: registry_ok_def)

text \<open>
  C1. With a registry that holds every clip \<open>update\<close> can select and the current one,
  \<open>update\<close> never throws, and the registry stays complete, so no later frame throws either.
\<close>

theorem update_no_throw:
  assumes "registry_ok c"
  shows "\<exists>c'. update delta keys c = Inr c' \<and> registry_ok c'"
  using update_Inr_exists [OF assms] registry_ok_update [OF assms] by blast

text \<open>
  C23. When the selected clip is missing from the registry, \<open>update\<close> throws a
  \<open>TypeError\<close> after it has already started fading out the current clip: the state
  at the throw has that fade and nothing else changed (no mixer advance, no movement).
\<close>

theorem update_throws_after_fade_out:
  assumes "current_action c \<noteq> select_play (direction_pressed keys) (toggle_run c)"
    and "animations_map c (current_action c) = Some i"
    and "animations_map c (select_play (direction_pressed keys) (toggle_run c)) = None"
  shows "update delta keys c =
           Inl (TypeError, c\<lparr>anim_mixer := mixer_act i
                  (fade_out (mixer_time (anim_mixer c)) fade_duration) (anim_mixer c)\<rparr>)"
  using assms by (simp add: update_cases transition_def Let_def)

lemma target_tracks_update_camera_target [simp]:
  "target_tracks (update_camera_target x z c)"
  by (simp add: target_tracks_def update_camera_target_def Let_def vec_eq_iff)

lemma target_tracks_move [simp]: "target_tracks (move delta keys c)"
  by (simp add: move_def Let_def)

lemma target_tracks_mixer [simp]: "target_tracks (c\<lparr>anim_mixer := m\<rparr>) = target_tracks c"
  by (simp add: target_tracks_def)

lemma target_tracks_after_transition:
  "target_tracks c \<Longrightarrow> target_tracks (after_transition delta keys c)"
  by (simp add: after_transition_def Let_def)

lemma target_tracks_update:
  assumes "target_tracks c" and "update delta keys c = Inr c'"
  shows "target_tracks c'"
proof -
  from assms(2) obtain c1 where c': "c' = after_transition delta keys c1" and
    "model_pos c1 = model_pos c" "camera_target c1 = camera_target c"
    by (rule update_Inr)
  with assms(1) have "target_tracks c1" by (simp add: target_tracks_def)
  then show ?thesis by (simp add: c' target_tracks_after_transition)
qed

text \<open>
  C4. Camera-target tracking: if the orbit target is one unit above the model (as the
  constructor leaves it), it is so after every successful \<open>update\<close>, moving or idle.
\<close>

theorem update_target_tracks:
  assumes "target_tracks c" and "update delta keys c = Inr c'"
  shows "target_tracks c'"
  using assms by (rule target_tracks_update)

lemma cam_offset_after_transition:
  "cam_offset (after_transition delta keys c) = cam_offset c"
  by (simp add: after_transition_def Let_def move_def update_camera_target_def cam_offset_def)

lemma cam_offset_update:
  assumes "update delta keys c = Inr c'"
  shows "cam_offset c' = cam_offset c \<and> vy (camera_pos c') = vy (camera_pos c)
         \<and> vy (model_pos c') = vy (model_pos c)"
proof -
  from assms obtain c1 where "c' = after_transition delta keys c1"
    "model_pos c1 = model_pos c" "camera_pos c1 = camera_pos c"
    by (rule update_Inr)
  then show ?thesis
    by (simp add: cam_offset_after_transition cam_offset_def after_transition_def Let_def
        move_def update_camera_target_def)
qed

text \<open>
  C25. The camera follows the model: \<open>update\<close> moves both by the same displacement, so the
  horizontal offset from model to camera and both heights are unchanged.
\<close>

theorem update_keeps_cam_offset:
  assumes "update delta keys c = Inr c'"
  shows "cam_offset c' = cam_offset c \<and> vy (camera_pos c') = vy (camera_pos c)
         \<and> vy (model_pos c') = vy (model_pos c)"
  using assms by (rule cam_offset_update)

lemma walk_dir_rot: "walk_dir cdir off = rot_y (normalize ((normalize cdir)\<lparr>vy := 0\<rparr>)) off"
  by (simp add: walk_dir_def rotate_angle_def apply_axis_angle_y)

lemma walk_dir_unit:
  assumes "(vx cdir, vz cdir) \<noteq> (0, 0)"
  shows "hlen (walk_dir cdir off) = 1"
proof -
  obtain k where k: "k > 0" "vx (normalize cdir) = k * vx cdir" "vz (normalize cdir) = k * vz cdir"
    using normalize_keeps_heading [OF assms] by blast
  then have "hlen ((normalize cdir)\<lparr>vy := 0\<rparr>) \<noteq> 0" using assms by (auto simp: hlen_zero_iff)
  then show ?thesis by (simp add: walk_dir_rot rot_y_hlen normalize_flat_hlen)
qed

lemma move_displacement:
  "model_pos c = p \<Longrightarrow>
   sqrt ((vx (model_pos (move delta keys c)) - vx p)\<^sup>2
       + (vz (model_pos (move delta keys c)) - vz p)\<^sup>2)
   = \<bar>velocity (current_action c) * delta\<bar> * hlen (walk_dir (camera_dir c) (direction_offset keys))"
  using sqrt_scaled [of "vx (walk_dir (camera_dir c) (direction_offset keys))"
      "velocity (current_action c) * delta" "vz (walk_dir (camera_dir c) (direction_offset keys))"]
  by (auto simp: move_def Let_def hlen_def mult.assoc)

text \<open>
  C5. Displacement per frame: when the camera's forward axis is not vertical, the model moves
  horizontally by exactly \<open>5 |delta|\<close> in \<open>Run\<close>, \<open>2 |delta|\<close> in \<open>Walk\<close>,
  and not at all in \<open>Idle\<close>, whatever the camera's pitch.
\<close>

theorem update_displacement:
  assumes "update delta keys c = Inr c'" and "(vx (camera_dir c), vz (camera_dir c)) \<noteq> (0, 0)"
  shows "sqrt ((vx (model_pos c') - vx (model_pos c))\<^sup>2 + (vz (model_pos c') - vz (model_pos c))\<^sup>2)
         = (if current_action c' = ''Run'' then 5 * \<bar>delta\<bar>
            else if current_action c' = ''Walk'' then 2 * \<bar>delta\<bar> else 0)"
proof -
  from assms(1) obtain c1 where c': "c' = after_transition delta keys c1"
    and "model_pos c1 = model_pos c" "camera_dir c1 = camera_dir c"
    by (rule update_Inr)
  with assms(2) show ?thesis
    by (auto simp: after_transition_def Let_def move_displacement walk_dir_unit velocity_def
        run_velocity_def walk_velocity_def abs_mult)
qed

lemma turn_step_bounds: "0 \<le> turn_step" "turn_step < pi"
  using pi_ge_two by (simp_all add: turn_step_def)

lemma after_transition_yaw:
  "model_yaw (after_transition delta keys c) = model_yaw c \<or>
   (\<exists>tgt. model_yaw (after_transition delta keys c) = rotate_towards (model_yaw c) tgt turn_step)"
  by (auto simp: after_transition_def Let_def move_def)

text \<open>
  C24. Turning is rate-limited: one \<open>update\<close> turns the model by at most 0.2 radians
  (measured along the shorter arc), however far its target heading is.
\<close>

theorem update_turn_bound:
  assumes "update delta keys c = Inr c'"
  shows "\<bar>wrap_angle (model_yaw c' - model_yaw c)\<bar> \<le> 0.2"
proof -
  from assms obtain c1 where c': "c' = after_transition delta keys c1" and y: "model_yaw c1 = model_yaw c"
    by (rule update_Inr)
  show ?thesis
    using after_transition_yaw [of delta keys c1] rotate_towards_turn [OF turn_step_bounds] pi_gt_zero
    by (auto simp: c' y wrap_angle_id turn_step_def)
qed

section \<open>The example scene\<close>

lemmas demo_defs = demo_ctrl_def construct_def demo_anims_def demo_mixer_def
  update_camera_target_def mixer_act_def

lemma demo_fields [simp]:
  "animations_map demo_ctrl = demo_anims" "current_action demo_ctrl = ''Idle''"
  "toggle_run demo_ctrl = True" "camera_dir demo_ctrl = vec 0 0 (-1)"
  "model_pos demo_ctrl = vec 0 0 0"
  by (simp_all add: demo_defs Let_def split: option.splits)

lemma demo_registry_ok: "registry_ok demo_ctrl"
  by (simp add: registry_ok_def demo_anims_def)

lemma demo_target_tracks: "target_tracks demo_ctrl"
  by (simp add: demo_defs target_tracks_def Let_def vec_eq_iff)

lemma press_W_pressed [simp]: "direction_pressed (press [W])"
  by (simp add: direction_pressed_iff press_def)

section \<open>Witnesses\<close>

theorem update_selects_action_witness:
  "\<exists>c'. update (1/2) (press [W]) demo_ctrl = Inr c' \<and>
        current_action c' = select_play (direction_pressed (press [W])) (toggle_run demo_ctrl) \<and>
        current_action c' = ''Run''"
proof -
  obtain c' where u: "update (1/2) (press [W]) demo_ctrl = Inr c'"
    using update_Inr_exists [OF demo_registry_ok] by blast
  with update_selects_action [OF u] show ?thesis by (simp add: select_play_def)
qed

theorem update_no_throw_witness:
  "registry_ok demo_ctrl \<and> (\<exists>c'. update (1/2) (press [W]) demo_ctrl = Inr c' \<and> registry_ok c')"
  using update_no_throw [OF demo_registry_ok] demo_registry_ok by blast

theorem update_throws_after_fade_out_witness:
  "let c = demo_ctrl\<lparr>animations_map := demo_anims(''Run'' := None)\<rparr> in
   current_action c \<noteq> select_play (direction_pressed (press [W])) (toggle_run c) \<and>
   animations_map c (current_action c) = Some 0 \<and>
   animations_map c (select_play (direction_pressed (press [W])) (toggle_run c)) = None \<and>
   update (1/2) (press [W]) c =
     Inl (TypeError, c\<lparr>anim_mixer := mixer_act 0
            (fade_out (mixer_time (anim_mixer c)) fade_duration) (anim_mixer c)\<rparr>)"
proof -
  let ?c = "demo_ctrl\<lparr>animations_map := demo_anims(''Run'' := None)\<rparr>"
  have h: "current_action ?c \<noteq> select_play (direction_pressed (press [W])) (toggle_run ?c)"
    "animations_map ?c (current_action ?c) = Some 0"
    "animations_map ?c (select_play (direction_pressed (press [W])) (toggle_run ?c)) = None"
    by (simp_all add: select_play_def demo_anims_def)
  show ?thesis using h update_throws_after_fade_out [OF h] by (simp add: Let_def)
qed

theorem update_target_tracks_witness:
  "target_tracks demo_ctrl \<and>
   (\<exists>c'. update (1/2) (press [W]) demo_ctrl = Inr c' \<and> target_tracks c')"
proof -
  obtain c' where u: "update (1/2) (press [W]) demo_ctrl = Inr c'"
    using update_Inr_exists [OF demo_registry_ok] by blast
  with update_target_tracks [OF demo_target_tracks u] demo_target_tracks show ?thesis by blast
qed

theorem update_keeps_cam_offset_witness:
  "\<exists>c'. update (1/2) (press [W]) demo_ctrl = Inr c' \<and> cam_offset c' = cam_offset demo_ctrl \<and>
        vy (camera_pos c') = vy (camera_pos demo_ctrl) \<and> vy (model_pos c') = vy (model_pos demo_ctrl)"
proof -
  obtain c' where u: "update (1/2) (press [W]) demo_ctrl = Inr c'"
    using update_Inr_exists [OF demo_registry_ok] by blast
  with update_keeps_cam_offset [OF u] show ?thesis by blast
qed

theorem update_displacement_witness:
  "(vx (camera_dir demo_ctrl), vz (camera_dir demo_ctrl)) \<noteq> (0, 0) \<and>
   (\<exists>c'. update (1/2) (press [W]) demo_ctrl = Inr c' \<and>
      sqrt ((vx (model_pos c') - vx (model_pos demo_ctrl))\<^sup>2
          + (vz (model_pos c') - vz (model_pos demo_ctrl))\<^sup>2) = 5 / 2)"
proof -
  have d: "(vx (camera_dir demo_ctrl), vz (camera_dir demo_ctrl)) \<noteq> (0, 0)" by simp
  obtain c' where u: "update (1/2) (press [W]) demo_ctrl = Inr c'"
    using update_Inr_exists [OF demo_registry_ok] by blast
  have "current_action c' = ''Run''"
    using update_Inr_frame [OF u] by (simp add: select_play_def)
  with update_displacement [OF u d] d u show ?thesis by auto
qed

theorem update_turn_bound_witness:
  "\<exists>c'. update (1/2) (press [W]) demo_ctrl = Inr c' \<and>
        \<bar>wrap_angle (model_yaw c' - model_yaw demo_ctrl)\<bar> \<le> 0.2"
proof -
  obtain c' where u: "update (1/2) (press [W]) demo_ctrl = Inr c'"
    using update_Inr_exists [OF demo_registry_ok] by blast
  with update_turn_bound [OF u] show ?thesis by blast
qed

end
