(* ===== verification/Fading.thy ===== *)
theory Fading
  imports Controls
begin

text \<open>
  The animation side of \<open>CharacterControls.update\<close>: what the cross-fade of lines 69--77
  and the \<open>mixer.update(delta)\<close> of line 79 do to the weights of the registered actions.
  \<open>one_current\<close> is the spec's ``exactly one clip is current'': the current name's action
  is heading to full weight and every other registered action to zero. \<open>settled\<close> says
  that no fade is pending. The theorems show that \<open>update\<close> keeps \<open>one_current\<close>, that
  a change of clip from a settled state is a proper cross-fade (the weights sum to 1 at every
  later time), that a held selection settles once its fades have run out, and, against the
  spec's ``no abrupt cut'', that a second change within the 0.2 fade window overshoots.
\<close>

definition heading_in :: "action \<Rightarrow> bool" where
  "heading_in a =
     (act_active a \<and> act_enabled a \<and>
      (case act_fade a of None \<Rightarrow> True | Some (t0, w0, t1, w1) \<Rightarrow> w0 = 0 \<and> w1 = 1 \<and> t0 < t1))"

definition heading_out :: "action \<Rightarrow> bool" where
  "heading_out a =
     (\<not> act_active a \<or> \<not> act_enabled a \<or>
      (case act_fade a of None \<Rightarrow> False | Some (t0, w0, t1, w1) \<Rightarrow> w0 = 1 \<and> w1 = 0 \<and> t0 < t1))"

definition one_current :: "ctrl \<Rightarrow> bool" where
  "one_current c =
     (case animations_map c (current_action c) of
        None \<Rightarrow> False
      | Some i \<Rightarrow> heading_in (actions (anim_mixer c) i) \<and>
          (\<forall>j \<in> ran (animations_map c) - {i}. heading_out (actions (anim_mixer c) j)))"

definition settled :: "ctrl \<Rightarrow> bool" where
  "settled c =
     (case animations_map c (current_action c) of
        None \<Rightarrow> False
      | Some i \<Rightarrow> act_active (actions (anim_mixer c) i) \<and> act_enabled (actions (anim_mixer c) i)
          \<and> act_fade (actions (anim_mixer c) i) = None
          \<and> (\<forall>j \<in> ran (animations_map c) - {i}.
                 \<not> act_active (actions (anim_mixer c) j) \<or> \<not> act_enabled (actions (anim_mixer c) j)))"

definition registry_wf :: "ctrl \<Rightarrow> bool" where
  "registry_wf c =
     (registry_ok c \<and> finite (dom (animations_map c)) \<and> inj_on (animations_map c) (dom (animations_map c)))"

definition total_weight :: "ctrl \<Rightarrow> real \<Rightarrow> real" where
  "total_weight c t = (\<Sum>j \<in> ran (animations_map c). weight (actions (anim_mixer c) j) t)"

text \<open>Every fade scheduled on a registered action has run out by mixer time \<open>t\<close>.\<close>

definition fades_ended :: "ctrl \<Rightarrow> real \<Rightarrow> bool" where
  "fades_ended c t =
     (\<forall>j \<in> ran (animations_map c).
        case act_fade (actions (anim_mixer c) j) of None \<Rightarrow> True | Some (t0, w0, t1, w1) \<Rightarrow> t1 \<le> t)"

text \<open>The example scene after one frame of \<open>W\<close> (0.1 time units): \<open>Idle\<close> fading out,
  \<open>Run\<close> fading in.\<close>

definition scene_run :: ctrl where
  "scene_run = after_transition (1/10) (press [W]) (demo_ctrl\<lparr>anim_mixer := mixer_act 2
     (play_action \<circ> fade_in (mixer_time (anim_mixer demo_ctrl)) fade_duration \<circ> reset_action)
     (mixer_act 0 (fade_out (mixer_time (anim_mixer demo_ctrl)) fade_duration) (anim_mixer demo_ctrl)),
     current_action := ''Run''\<rparr>)"

text \<open>The example scene 0.05 later, after the run toggle was switched: Walk fading in,
  Run fading out again from full weight, Idle still fading out.\<close>

definition scene_walk :: ctrl where
  "scene_walk = (let c = switch_run_toggle scene_run; now = mixer_time (anim_mixer c) in
     after_transition (1/20) (press [W]) (c\<lparr>anim_mixer := mixer_act 1
       (play_action \<circ> fade_in now fade_duration \<circ> reset_action)
       (mixer_act 2 (fade_out now fade_duration) (anim_mixer c)),
       current_action := ''Walk''\<rparr>))"

lemma heading_update_time [simp]:
  "heading_in (update_time delta a) = heading_in a" "heading_out (update_time delta a) = heading_out a"
  by (simp_all add: heading_in_def heading_out_def)

lemma heading_in_update_weight: "heading_in a \<Longrightarrow> heading_in (update_weight t a)"
  by (auto simp: heading_in_def update_weight_def split: option.splits)

lemma heading_out_update_weight: "heading_out a \<Longrightarrow> heading_out (update_weight t a)"
  by (auto simp: heading_out_def update_weight_def split: option.splits)

lemma one_current_mixer_update:
  "one_current c \<Longrightarrow> one_current (c\<lparr>anim_mixer := mixer_update delta (anim_mixer c)\<rparr>)"
  by (auto simp: one_current_def mixer_update_def Let_def heading_in_update_weight
      heading_out_update_weight split: option.splits)

lemma one_current_move: "one_current (move delta keys c) = one_current c"
  by (simp add: one_current_def split: option.splits)

lemma one_current_after_transition:
  "one_current c \<Longrightarrow> one_current (after_transition delta keys c)"
  by (simp add: after_transition_def Let_def one_current_move one_current_mixer_update)

lemma fade_duration_pos: "0 < fade_duration"
  by (simp add: fade_duration_def)

lemma one_current_transition:
  assumes "one_current c" and "transition p c = Inr c1"
  shows "one_current c1"
proof -
  obtain i j where i: "animations_map c (current_action c) = Some i" and j: "animations_map c p = Some j"
    using assms(2) by (auto simp: transition_def Let_def split: option.splits)
  let ?now = "mixer_time (anim_mixer c)"
  let ?acts = "actions (anim_mixer c)"
  have c1: "c1 = c\<lparr>anim_mixer := mixer_act j
            (play_action \<circ> fade_in ?now fade_duration \<circ> reset_action)
            (mixer_act i (fade_out ?now fade_duration) (anim_mixer c)), current_action := p\<rparr>"
    using assms(2) transition_ok [OF i j] by simp
  have hi: "heading_in ((play_action \<circ> fade_in ?now fade_duration \<circ> reset_action) a)" for a
    using fade_duration_pos by (simp add: heading_in_def action_defs)
  have ho: "heading_out (fade_out ?now fade_duration a)" for a
    using fade_duration_pos by (simp add: heading_out_def action_defs)
  have old: "heading_out (?acts k)" if "k \<in> ran (animations_map c) - {i}" for k
    using assms(1) i that by (simp add: one_current_def)
  show ?thesis
    using hi ho old j by (auto simp: one_current_def c1 mixer_act_def)
qed

lemma one_current_update:
  assumes "one_current c" and "update delta keys c = Inr c'"
  shows "one_current c'"
proof (cases "current_action c = select_play (direction_pressed keys) (toggle_run c)")
  case True
  with assms show ?thesis by (auto simp: update_cases Let_def one_current_after_transition)
next
  case False
  with assms(2) obtain c1 where "transition (select_play (direction_pressed keys) (toggle_run c)) c = Inr c1"
    and "c' = after_transition delta keys c1"
    by (auto simp: update_cases Let_def split: sum.splits)
  with assms(1) show ?thesis by (simp add: one_current_transition one_current_after_transition)
qed

text \<open>
  C8. Exactly one clip is current: if the current name's action is heading to full
  weight and every other registered action to zero, this holds after every successful
  \<open>update\<close>, across cross-fades, mixer advances and fade completions.
\<close>

theorem update_one_current:
  assumes "one_current c" and "update delta keys c = Inr c'"
  shows "one_current c'"
  using assms by (rule one_current_update)
lemma sum_two_nonzero:
  assumes "finite N" "i \<in> N" "j \<in> N" "i \<noteq> j" "\<forall>k \<in> N - {i, j}. f k = 0"
  shows "sum f N = f i + (f j :: real)"
proof -
  have "sum f N = sum f {i, j}"
    using assms by (intro sum.mono_neutral_right) auto
  with assms(4) show ?thesis by simp
qed

lemma weight_update_weight_later:
  "fade_ok a \<Longrightarrow> T \<le> t \<Longrightarrow> weight (update_weight T a) t = weight a t"
  by (auto simp: fade_ok_def weight_def update_weight_def interp_def split: option.splits)

lemma weight_off: "\<not> act_active a \<or> \<not> act_enabled a \<Longrightarrow> weight (update_weight T a) t = 0"
  by (auto simp: weight_def update_weight_def)

lemma update_change:
  assumes wf: "registry_wf c" and i: "animations_map c (current_action c) = Some i"
    and u: "update delta keys c = Inr c'" and ch: "current_action c' \<noteq> current_action c"
  shows "\<exists>j. animations_map c (current_action c') = Some j \<and> i \<noteq> j
    \<and> animations_map c' = animations_map c
    \<and> mixer_time (anim_mixer c') = mixer_time (anim_mixer c) + delta
    \<and> (\<forall>k. actions (anim_mixer c') k = update_weight (mixer_time (anim_mixer c) + delta)
       (update_time delta
         (if k = j then (play_action \<circ> fade_in (mixer_time (anim_mixer c)) fade_duration \<circ> reset_action)
                          (actions (anim_mixer c) k)
          else if k = i then fade_out (mixer_time (anim_mixer c)) fade_duration (actions (anim_mixer c) k)
          else actions (anim_mixer c) k)))"
proof -
  let ?p = "select_play (direction_pressed keys) (toggle_run c)"
  let ?now = "mixer_time (anim_mixer c)"
  have cp: "current_action c' = ?p" and m: "animations_map c' = animations_map c"
    using update_Inr_frame [OF u] by simp_all
  obtain j where j: "animations_map c ?p = Some j"
    using wf select_play_cases [of "direction_pressed keys" "toggle_run c"]
    by (auto simp: registry_wf_def registry_ok_def)
  have ij: "i \<noteq> j"
  proof
    assume "i = j"
    with i j have "animations_map c (current_action c) = animations_map c ?p" by simp
    then have "current_action c = ?p"
      using wf i j by (metis domI inj_onD registry_wf_def)
    with ch cp show False by simp
  qed
  have c': "c' = after_transition delta keys (c\<lparr>anim_mixer := mixer_act j
            (play_action \<circ> fade_in ?now fade_duration \<circ> reset_action)
            (mixer_act i (fade_out ?now fade_duration) (anim_mixer c)), current_action := ?p\<rparr>)"
    using u ch cp by (auto simp: update_cases Let_def transition_ok [OF i j])
  show ?thesis
    using j cp ij m by (intro exI [of _ j]) (simp add: c' mixer_update_def mixer_act_def Let_def)
qed

text \<open>
  C9. A change of clip from a settled state is a proper cross-fade: with a registry
  of distinct actions, the weights of all registered actions sum to 1 at every time from the
  mixer's new clock on (the old clip falls linearly as the new one rises over 0.2).
\<close>

theorem update_crossfade:
  assumes wf: "registry_wf c" and st: "settled c" and u: "update delta keys c = Inr c'"
    and ch: "current_action c' \<noteq> current_action c" and t: "mixer_time (anim_mixer c') \<le> t"
  shows "total_weight c' t = 1"
proof -
  let ?now = "mixer_time (anim_mixer c)"
  let ?acts = "actions (anim_mixer c)"
  obtain i where i: "animations_map c (current_action c) = Some i"
    using st by (auto simp: settled_def split: option.splits)
  obtain j where j: "animations_map c (current_action c') = Some j" and ij: "i \<noteq> j"
    and m: "animations_map c' = animations_map c" and T: "mixer_time (anim_mixer c') = ?now + delta"
    and acts': "\<forall>k. actions (anim_mixer c') k = update_weight (?now + delta) (update_time delta
       (if k = j then (play_action \<circ> fade_in ?now fade_duration \<circ> reset_action) (?acts k)
        else if k = i then fade_out ?now fade_duration (?acts k) else ?acts k))"
    using update_change [OF wf i u ch] by blast
  have fin: "finite (ran (animations_map c))"
    using wf by (simp add: registry_wf_def finite_ran)
  have "weight (actions (anim_mixer c') i) t = weight (fade_out ?now fade_duration (?acts i)) t"
    using ij t T fade_duration_pos by (simp add: acts'[rule_format] weight_update_weight_later)
  also have "\<dots> = interp (?now, 1, ?now + fade_duration, 0) t"
    using st i by (simp add: weight_def settled_def action_defs)
  finally have w_i: "weight (actions (anim_mixer c') i) t = interp (?now, 1, ?now + fade_duration, 0) t" .
  have "weight (actions (anim_mixer c') j) t
        = weight ((play_action \<circ> fade_in ?now fade_duration \<circ> reset_action) (?acts j)) t"
    using t T fade_duration_pos by (simp add: acts'[rule_format] weight_update_weight_later)
  also have "\<dots> = interp (?now, 0, ?now + fade_duration, 1) t"
    by (simp add: weight_def action_defs)
  finally have w_j: "weight (actions (anim_mixer c') j) t = interp (?now, 0, ?now + fade_duration, 1) t" .
  have w_k: "weight (actions (anim_mixer c') k) t = 0" if "k \<in> ran (animations_map c) - {i, j}" for k
    using that st i by (auto simp: acts'[rule_format] settled_def intro: weight_off)
  have "total_weight c' t = weight (actions (anim_mixer c') i) t + weight (actions (anim_mixer c') j) t"
    unfolding total_weight_def m
    using fin i j ij w_k by (intro sum_two_nonzero) (auto intro: ranI)
  also have "\<dots> = 1" using w_i w_j fade_duration_pos by (simp add: interp_cross)
  finally show ?thesis .
qed
lemma one_current_ended_weights:
  assumes "one_current c" and "fades_ended c t" and i: "animations_map c (current_action c) = Some i"
  shows "weight (actions (anim_mixer c) i) t = 1
    \<and> (\<forall>j \<in> ran (animations_map c) - {i}. weight (actions (anim_mixer c) j) t = 0)"
proof -
  have r: "i \<in> ran (animations_map c)" using i by (rule ranI)
  have e: "case act_fade (actions (anim_mixer c) j) of None \<Rightarrow> True | Some (t0, w0, t1, w1) \<Rightarrow> t1 \<le> t"
    if "j \<in> ran (animations_map c)" for j
    using assms(2) that by (simp add: fades_ended_def)
  have "heading_in (actions (anim_mixer c) i)" using assms(1) i by (simp add: one_current_def)
  with e [OF r] have "weight (actions (anim_mixer c) i) t = 1"
    by (auto simp: heading_in_def weight_def interp_def split: option.splits)
  moreover have "weight (actions (anim_mixer c) j) t = 0" if "j \<in> ran (animations_map c) - {i}" for j
  proof -
    have "heading_out (actions (anim_mixer c) j)" using assms(1) i that by (simp add: one_current_def)
    with e [of j] that show ?thesis
      by (auto simp: heading_out_def weight_def interp_def split: option.splits)
  qed
  ultimately show ?thesis by blast
qed

lemma one_current_ended_total:
  assumes "one_current c" and "fades_ended c t" and i: "animations_map c (current_action c) = Some i"
    and "finite (ran (animations_map c))"
  shows "total_weight c t = 1"
proof -
  have "i \<in> ran (animations_map c)" using i by (rule ranI)
  then have "total_weight c t = weight (actions (anim_mixer c) i) t
      + (\<Sum>j \<in> ran (animations_map c) - {i}. weight (actions (anim_mixer c) j) t)"
    unfolding total_weight_def using assms(4) by (simp add: sum.remove)
  with one_current_ended_weights [OF assms(1-3)] show ?thesis by simp
qed

lemma settled_one_current: "settled c \<Longrightarrow> one_current c"
  by (auto simp: settled_def one_current_def heading_in_def heading_out_def split: option.splits)

lemma settled_construct:
  assumes "anims cur = Some i" and "\<forall>j \<in> ran anims. fresh_action (actions mx j)"
  shows "settled (construct mpos myaw mx anims cpos cdir cur)"
proof -
  have "fresh_action (actions mx i)" using assms by (auto intro: ranI)
  with assms show ?thesis
    by (auto simp: settled_def construct_def mixer_act_def fresh_action_def action_defs)
qed

text \<open>
  C26. The constructor starts settled: with fresh actions and the initial name
  registered, only the initial clip plays, at full weight, with no fade pending.
\<close>

theorem construct_settled:
  assumes "anims cur = Some i" and "\<forall>j \<in> ran anims. fresh_action (actions mx j)"
  shows "settled (construct mpos myaw mx anims cpos cdir cur)"
  using assms by (rule settled_construct)

lemma update_weight_ended_in:
  "heading_in a \<Longrightarrow> (\<forall>f. act_fade a = Some f \<longrightarrow> fst (snd (snd f)) < T) \<Longrightarrow>
   act_active (update_weight T a) \<and> act_enabled (update_weight T a) \<and> act_fade (update_weight T a) = None"
  by (auto simp: heading_in_def update_weight_def split: option.splits)

lemma update_weight_ended_out:
  "heading_out a \<Longrightarrow> (\<forall>f. act_fade a = Some f \<longrightarrow> fst (snd (snd f)) < T) \<Longrightarrow>
   \<not> act_active (update_weight T a) \<or> \<not> act_enabled (update_weight T a)"
  by (auto simp: heading_out_def update_weight_def split: option.splits)

lemma settled_mixer_update:
  assumes "one_current c"
    and ends: "\<forall>j \<in> ran (animations_map c). \<forall>f. act_fade (actions (anim_mixer c) j) = Some f \<longrightarrow>
                 fst (snd (snd f)) < mixer_time (anim_mixer c) + delta"
  shows "settled (c\<lparr>anim_mixer := mixer_update delta (anim_mixer c)\<rparr>)"
proof -
  obtain i where i: "animations_map c (current_action c) = Some i"
    using assms(1) by (auto simp: one_current_def split: option.splits)
  let ?T = "mixer_time (anim_mixer c) + delta" and ?a = "actions (anim_mixer c)"
  have hi: "heading_in (?a i)" and ho: "\<forall>j \<in> ran (animations_map c) - {i}. heading_out (?a j)"
    using assms(1) i by (simp_all add: one_current_def)
  have e: "\<forall>f. act_fade (?a j) = Some f \<longrightarrow> fst (snd (snd f)) < ?T"
    if "j \<in> ran (animations_map c)" for j
    using ends that by blast
  have "i \<in> ran (animations_map c)" using i by (rule ranI)
  then have new_i: "act_active (update_weight ?T (?a i)) \<and> act_enabled (update_weight ?T (?a i))
      \<and> act_fade (update_weight ?T (?a i)) = None"
    using update_weight_ended_in [OF hi] e by blast
  have new_j: "\<not> act_active (update_weight ?T (?a j)) \<or> \<not> act_enabled (update_weight ?T (?a j))"
    if "j \<in> ran (animations_map c) - {i}" for j
    using that ho e update_weight_ended_out by blast
  show ?thesis using i new_i new_j by (simp add: settled_def mixer_update_def Let_def)
qed

lemma settled_move: "settled (move delta keys c) = settled c"
  by (simp add: settled_def split: option.splits)

text \<open>
  C27. A held selection settles: when the clip does not change and every pending fade
  ends before the mixer's next time, \<open>update\<close> succeeds and leaves no fade pending and no
  other action playing.
\<close>

theorem update_settles:
  assumes "one_current c"
    and "current_action c = select_play (direction_pressed keys) (toggle_run c)"
    and "\<forall>j \<in> ran (animations_map c). \<forall>f. act_fade (actions (anim_mixer c) j) = Some f \<longrightarrow>
           fst (snd (snd f)) < mixer_time (anim_mixer c) + delta"
  shows "\<exists>c'. update delta keys c = Inr c' \<and> settled c'"
proof -
  have u: "update delta keys c = Inr (after_transition delta keys c)"
    using assms(2) by (simp add: update_cases Let_def)
  have "settled (after_transition delta keys c)"
    using settled_mixer_update [OF assms(1,3)]
    by (simp add: after_transition_def Let_def settled_move)
  with u show ?thesis by blast
qed

lemma update_switch:
  assumes "animations_map c (current_action c) = Some i" "animations_map c p = Some j"
    and "p = select_play (direction_pressed keys) (toggle_run c)" "current_action c \<noteq> p"
  shows "update delta keys c = Inr (after_transition delta keys (c\<lparr>anim_mixer := mixer_act j
            (play_action \<circ> fade_in (mixer_time (anim_mixer c)) fade_duration \<circ> reset_action)
            (mixer_act i (fade_out (mixer_time (anim_mixer c)) fade_duration) (anim_mixer c)),
          current_action := p\<rparr>))"
  using assms by (simp add: update_cases Let_def transition_ok)

lemma update_scene_run: "update (1/10) (press [W]) demo_ctrl = Inr scene_run"
  unfolding scene_run_def by (rule update_switch) (simp_all add: demo_anims_def select_play_def)

lemma scene_run_fields:
  "current_action scene_run = ''Run''" "animations_map scene_run = demo_anims"
  "toggle_run scene_run = True"
  by (simp_all add: scene_run_def)

lemma demo_mixer0: "anim_mixer demo_ctrl = mixer_act 0 play_action demo_mixer"
  by (simp add: demo_defs Let_def)

lemma scene_run_mixer:
  "mixer_time (anim_mixer scene_run) = 1/10"
  "actions (anim_mixer scene_run) 0 = \<lparr>act_enabled = True, act_active = True,
     act_fade = Some (0, 1, 1/5, 0), act_time = 1/10, act_duration = 1\<rparr>"
  "actions (anim_mixer scene_run) 2 = \<lparr>act_enabled = True, act_active = True,
     act_fade = Some (0, 0, 1/5, 1), act_time = 1/10, act_duration = 1\<rparr>"
  "actions (anim_mixer scene_run) 1 = new_action 1"
  "actions (anim_mixer scene_run) (Suc 0) = new_action 1"
  by (simp_all add: scene_run_def demo_mixer0 mixer_update_def mixer_act_def demo_mixer_def
      new_action_def action_defs update_weight_def update_time_def fade_duration_def Let_def)

lemma ran_demo_anims: "ran demo_anims = {0, 1, 2}"
  by (simp add: demo_anims_def ran_map_upd insert_commute)

lemma update_scene_walk: "update (1/20) (press [W]) (switch_run_toggle scene_run) = Inr scene_walk"
  unfolding scene_walk_def Let_def
  by (rule update_switch) (simp_all add: scene_run_fields demo_anims_def select_play_def switch_run_toggle_def)

lemma scene_walk_mixer:
  "mixer_time (anim_mixer scene_walk) = 3/20"
  "actions (anim_mixer scene_walk) 0 = \<lparr>act_enabled = True, act_active = True,
     act_fade = Some (0, 1, 1/5, 0), act_time = 3/20, act_duration = 1\<rparr>"
  "actions (anim_mixer scene_walk) (Suc 0) = \<lparr>act_enabled = True, act_active = True,
     act_fade = Some (1/10, 0, 3/10, 1), act_time = 1/20, act_duration = 1\<rparr>"
  "actions (anim_mixer scene_walk) 2 = \<lparr>act_enabled = True, act_active = True,
     act_fade = Some (1/10, 1, 3/10, 0), act_time = 3/20, act_duration = 1\<rparr>"
  by (simp_all add: scene_walk_def scene_run_mixer switch_run_toggle_def mixer_update_def mixer_act_def
      update_weight_def update_time_def Let_def action_defs fade_duration_def new_action_def)

lemma scene_walk_fields: "current_action scene_walk = ''Walk''" "animations_map scene_walk = demo_anims"
  by (simp_all add: scene_walk_def scene_run_fields switch_run_toggle_def Let_def)

text \<open>
  C21. A second clip change inside the 0.2 fade window is not a cross-fade: in the
  example scene, Idle to Run at time 0 and Run to Walk at time 0.1 make Run's weight jump from
  1/2 to 1 at the switch, and the weights sum to 5/4 at time 0.15.
\<close>

theorem rapid_switch_overshoots:
  "\<exists>c1 c2. update (1/10) (press [W]) demo_ctrl = Inr c1 \<and>
     weight (actions (anim_mixer c1) 2) (mixer_time (anim_mixer c1)) = 1/2 \<and>
     update (1/20) (press [W]) (switch_run_toggle c1) = Inr c2 \<and>
     weight (actions (anim_mixer c2) 2) (mixer_time (anim_mixer c1)) = 1 \<and>
     current_action c2 = ''Walk'' \<and> total_weight c2 (mixer_time (anim_mixer c2)) = 5/4"
proof -
  have w1: "weight (actions (anim_mixer scene_run) 2) (mixer_time (anim_mixer scene_run)) = 1/2"
    by (simp add: scene_run_mixer weight_def interp_def)
  have w2: "weight (actions (anim_mixer scene_walk) 2) (mixer_time (anim_mixer scene_run)) = 1"
    by (simp add: scene_run_mixer scene_walk_mixer weight_def interp_def)
  have tw: "total_weight scene_walk (mixer_time (anim_mixer scene_walk)) = 5/4"
    by (simp add: total_weight_def scene_walk_fields ran_demo_anims scene_walk_mixer weight_def interp_def)
  show ?thesis
    by (rule exI [of _ scene_run], rule exI [of _ scene_walk])
      (simp add: update_scene_run update_scene_walk w1 w2 tw scene_walk_fields)
qed

section \<open>Witnesses\<close>

lemma demo_anims_simps [simp]:
  "demo_anims ''Idle'' = Some 0" "demo_anims ''Walk'' = Some 1" "demo_anims ''Run'' = Some 2"
  by (simp_all add: demo_anims_def)

lemma demo_settled: "settled demo_ctrl"
  by (simp add: settled_def demo_mixer0 ran_demo_anims mixer_act_def demo_mixer_def
      new_action_def action_defs)

lemma demo_registry_wf: "registry_wf demo_ctrl"
  using demo_registry_ok by (simp add: registry_wf_def demo_anims_def)

lemma scene_run_one_current: "one_current scene_run"
  by (auto simp: one_current_def scene_run_fields scene_run_mixer ran_demo_anims heading_in_def
      heading_out_def new_action_def)

theorem update_one_current_witness: "one_current demo_ctrl \<and> one_current scene_run"
  using update_one_current [OF settled_one_current [OF demo_settled] update_scene_run]
    settled_one_current [OF demo_settled] by blast

theorem update_crossfade_witness:
  "registry_wf demo_ctrl \<and> settled demo_ctrl \<and> current_action scene_run \<noteq> current_action demo_ctrl
   \<and> total_weight scene_run (mixer_time (anim_mixer scene_run)) = 1"
proof -
  have ch: "current_action scene_run \<noteq> current_action demo_ctrl" by (simp add: scene_run_fields)
  show ?thesis
    using update_crossfade [OF demo_registry_wf demo_settled update_scene_run ch order_refl]
      demo_registry_wf demo_settled ch by blast
qed

theorem construct_settled_witness:
  "demo_anims ''Idle'' = Some 0 \<and> fresh_action (actions demo_mixer 0) \<and> fresh_action (actions demo_mixer 2) \<and>
   settled (construct (vec 0 0 0) 0 demo_mixer demo_anims (vec 0 2 5) (vec 0 0 (-1)) ''Idle'')"
proof -
  have h: "demo_anims ''Idle'' = Some 0" "\<forall>j \<in> ran demo_anims. fresh_action (actions demo_mixer j)"
    by (simp_all add: demo_anims_def demo_mixer_def)
  show ?thesis using construct_settled [OF h] h by (simp add: demo_mixer_def)
qed

theorem update_settles_witness:
  "one_current scene_run \<and>
   current_action scene_run = select_play (direction_pressed (press [W])) (toggle_run scene_run) \<and>
   act_fade (actions (anim_mixer scene_run) 0) = Some (0, 1, 1/5, 0) \<and>
   act_fade (actions (anim_mixer scene_run) 2) = Some (0, 0, 1/5, 1) \<and>
   mixer_time (anim_mixer scene_run) + 1/5 = 3/10 \<and>
   (\<exists>c'. update (1/5) (press [W]) scene_run = Inr c' \<and> settled c')"
proof -
  have h: "current_action scene_run = select_play (direction_pressed (press [W])) (toggle_run scene_run)"
    by (simp add: scene_run_fields select_play_def)
  have e: "\<forall>j \<in> ran (animations_map scene_run). \<forall>f. act_fade (actions (anim_mixer scene_run) j) = Some f
      \<longrightarrow> fst (snd (snd f)) < mixer_time (anim_mixer scene_run) + 1/5"
    by (simp add: scene_run_fields scene_run_mixer ran_demo_anims new_action_def)
  show ?thesis using update_settles [OF scene_run_one_current h e] scene_run_one_current h
    by (simp add: scene_run_mixer)
qed

end
