(* ===== verification/Lifecycle.thy ===== *)
theory Lifecycle
  imports Fading
begin

text \<open>
  The life of a \<open>CharacterControls\<close> object: the constructor's loop over the
  animations map (lines 40--44) and the states the public operations reach from a
  constructed object. \<open>reach c\<^sub>0\<close> is the set of states an application can produce by
  calling \<open>update\<close> (a frame) and \<open>switchRunToggle\<close> in any order after constructing
  \<open>c\<^sub>0\<close>; a frame that throws leaves its partial effects behind, and the render loop may
  go on (the spec: ``a single bad frame is self-correcting next frame''), so the state at
  a throw is reachable too. Invariants over \<open>reach\<close> are proved by rule induction.
\<close>

section \<open>The constructor's \<open>forEach\<close>\<close>

text \<open>A JavaScript \<open>Map\<close> iterates its entries in insertion order, each key once: an
  association list with distinct keys. \<open>animationsMap.forEach\<close> plays every action
  whose key is the initial action's name.\<close>

definition for_each_play :: "string \<Rightarrow> (string \<times> aid) list \<Rightarrow> mixer \<Rightarrow> mixer" where
  "for_each_play current entries m =
     fold (\<lambda>(key, value) m. if key = current then mixer_act value play_action m else m) entries m"

definition construct_js ::
  "vec3 \<Rightarrow> real \<Rightarrow> mixer \<Rightarrow> (string \<times> aid) list \<Rightarrow> vec3 \<Rightarrow> vec3 \<Rightarrow> string \<Rightarrow> ctrl" where
  "construct_js mpos myaw mx entries cpos cdir cur =
     update_camera_target 0 0
       \<lparr>model_pos = mpos, model_yaw = myaw,
        anim_mixer = for_each_play cur entries mx,
        animations_map = map_of entries, camera_pos = cpos, camera_dir = cdir,
        camera_target = vec 0 0 0, toggle_run = True, current_action = cur,
        walk_direction = vec 0 0 0, rotate_quarternion = 0\<rparr>"

section \<open>Reachable states\<close>

inductive reach :: "ctrl \<Rightarrow> ctrl \<Rightarrow> bool" for c0 :: ctrl where
  start: "reach c0 c0"
| frame: "reach c0 c \<Longrightarrow> update delta keys c = Inr c' \<Longrightarrow> reach c0 c'"
| thrown: "reach c0 c \<Longrightarrow> update delta keys c = Inl (e, c') \<Longrightarrow> reach c0 c'"
| toggle: "reach c0 c \<Longrightarrow> reach c0 (switch_run_toggle c)"

text \<open>Every action's fade is one the controller can schedule.\<close>

definition fades_ok :: "ctrl \<Rightarrow> bool" where
  "fades_ok c = (\<forall>j. fade_ok (actions (anim_mixer c) j))"

text \<open>The well-formedness of a state reached from \<open>c\<^sub>0\<close>: fades are well formed, the
  registry is the one given to the constructor, the current name is the initial one or a
  name \<open>update\<close> selects, the orbit target is above the model, and model and camera keep
  their offset and heights.\<close>

definition ctrl_wf :: "ctrl \<Rightarrow> ctrl \<Rightarrow> bool" where
  "ctrl_wf c0 c =
     (fades_ok c \<and> animations_map c = animations_map c0
      \<and> current_action c \<in> {current_action c0, ''Idle'', ''Walk'', ''Run''}
      \<and> target_tracks c \<and> cam_offset c = cam_offset c0
      \<and> vy (model_pos c) = vy (model_pos c0) \<and> vy (camera_pos c) = vy (camera_pos c0))"

inductive_cases reach_startE: "reach c0 c"

section \<open>Lemmas\<close>

lemma update_Inl:
  assumes "update delta keys c = Inl (e, c')"
  shows "c' = c \<or>
    (\<exists>i. c' = c\<lparr>anim_mixer := mixer_act i (fade_out (mixer_time (anim_mixer c)) fade_duration) (anim_mixer c)\<rparr>)"
  using assms by (auto simp: update_cases transition_def Let_def split: if_splits option.splits sum.splits)

lemma registry_ok_no_throw: "registry_ok c \<Longrightarrow> update delta keys c \<noteq> Inl x"
  using update_Inr_exists [of c delta keys] by auto

lemma fades_ok_after_transition: "fades_ok c \<Longrightarrow> fades_ok (after_transition delta keys c)"
  by (simp add: fades_ok_def mixer_update_def Let_def fade_ok_update_weight)

lemma fades_ok_transition: "fades_ok c \<Longrightarrow> transition p c = Inr c1 \<Longrightarrow> fades_ok c1"
  by (auto simp: fades_ok_def transition_def Let_def mixer_act_def fade_duration_pos split: option.splits)

lemma fades_ok_update: "fades_ok c \<Longrightarrow> update delta keys c = Inr c' \<Longrightarrow> fades_ok c'"
  by (auto simp: update_cases Let_def fades_ok_after_transition dest: fades_ok_transition
      split: if_splits sum.splits)

lemma fades_ok_fade_out: "fades_ok c \<Longrightarrow>
    fades_ok (c\<lparr>anim_mixer := mixer_act i (fade_out now fade_duration) (anim_mixer c)\<rparr>)"
  by (simp add: fades_ok_def mixer_act_def fade_duration_pos)

lemma ctrl_wf_update:
  assumes "ctrl_wf c0 c" and u: "update delta keys c = Inr c'"
  shows "ctrl_wf c0 c'"
proof -
  have "fades_ok c" "target_tracks c" using assms(1) by (simp_all add: ctrl_wf_def)
  then have "fades_ok c'" "target_tracks c'"
    by (simp_all add: fades_ok_update [OF _ u] target_tracks_update [OF _ u])
  moreover have "current_action c' \<in> {''Idle'', ''Walk'', ''Run''}"
    using update_Inr_frame [OF u] select_play_cases by simp
  ultimately show ?thesis
    using assms cam_offset_update [OF u] update_Inr_frame [OF u] by (auto simp: ctrl_wf_def)
qed

lemma ctrl_wf_thrown:
  assumes "ctrl_wf c0 c" and "update delta keys c = Inl (e, c')"
  shows "ctrl_wf c0 c'"
  using update_Inl [OF assms(2)] assms(1)
  by (auto simp: ctrl_wf_def fades_ok_fade_out target_tracks_def cam_offset_def)

lemma ctrl_wf_toggle: "ctrl_wf c0 c \<Longrightarrow> ctrl_wf c0 (switch_run_toggle c)"
  by (simp add: ctrl_wf_def switch_run_toggle_def fades_ok_def target_tracks_def cam_offset_def)

lemma reach_ctrl_wf: "reach c0 c \<Longrightarrow> ctrl_wf c0 c0 \<Longrightarrow> ctrl_wf c0 c"
proof (induction rule: reach.induct)
  case start then show ?case .
next
  case (frame c delta keys c') then show ?case by (blast intro: ctrl_wf_update)
next
  case (thrown c delta keys e c') then show ?case by (blast intro: ctrl_wf_thrown)
next
  case (toggle c) then show ?case by (blast intro: ctrl_wf_toggle)
qed

lemma ctrl_wf_construct:
  "(\<forall>j. fade_ok (actions mx j)) \<Longrightarrow>
   ctrl_wf (construct mpos myaw mx anims cpos cdir cur) (construct mpos myaw mx anims cpos cdir cur)"
  by (auto simp: ctrl_wf_def fades_ok_def construct_def update_camera_target_def target_tracks_def
      mixer_act_def Let_def vec_eq_iff split: option.splits)

lemma switch_run_toggle_keeps [simp]:
  "registry_ok (switch_run_toggle c) = registry_ok c"
  "one_current (switch_run_toggle c) = one_current c"
  by (simp_all add: registry_ok_def one_current_def switch_run_toggle_def split: option.split)

lemma reach_registry_one_current:
  assumes "reach c0 c" and "registry_ok c0" and "one_current c0"
  shows "registry_ok c \<and> one_current c"
  using assms
proof (induction rule: reach.induct)
  case start then show ?case by simp
next
  case (frame c delta keys c') then show ?case by (blast intro: registry_ok_update one_current_update)
next
  case (thrown c delta keys e c') then show ?case using registry_ok_no_throw by blast
next
  case (toggle c) then show ?case by simp
qed

lemma reach_construct_one_current:
  assumes "reach (construct mpos myaw mx anims cpos cdir cur) c"
    and "{''Idle'', ''Walk'', ''Run'', cur} \<subseteq> dom anims"
    and "\<forall>j \<in> ran anims. fresh_action (actions mx j)"
  shows "registry_ok c \<and> one_current c"
proof -
  let ?c0 = "construct mpos myaw mx anims cpos cdir cur"
  have r0: "registry_ok ?c0"
    using assms(2) by (simp add: registry_ok_def construct_def update_camera_target_def Let_def)
  obtain i where "anims cur = Some i" using assms(2) by auto
  then have "one_current ?c0" using settled_construct assms(3) settled_one_current by blast
  with reach_registry_one_current [OF assms(1) r0] show ?thesis by blast
qed

lemma for_each_play_absent:
  "current \<notin> fst ` set entries \<Longrightarrow> for_each_play current entries m = m"
  by (induction entries arbitrary: m) (auto simp: for_each_play_def)

lemma for_each_play_map_of:
  "distinct (map fst entries) \<Longrightarrow>
   for_each_play current entries m =
     (case map_of entries current of None \<Rightarrow> m | Some i \<Rightarrow> mixer_act i play_action m)"
proof (induction entries arbitrary: m)
  case Nil
  then show ?case by (simp add: for_each_play_def)
next
  case (Cons e entries)
  obtain key v where e: "e = (key, v)" by (cases e)
  show ?case
  proof (cases "key = current")
    case True
    with Cons.prems e have "current \<notin> fst ` set entries" by auto
    with True e show ?thesis
      using for_each_play_absent [of current entries] by (simp add: for_each_play_def)
  next
    case False
    with Cons e show ?thesis by (simp add: for_each_play_def)
  qed
qed

section \<open>Properties\<close>

text \<open>
  C15. The constructor's loop is the lookup: for a \<open>Map\<close> (distinct keys), running
  \<open>forEach\<close> over its entries and playing the action whose key is the initial name builds
  the same object as looking the name up and playing what is found, so \<open>construct\<close>
  over \<open>map_of\<close> is a faithful abstraction of lines 27--48.
\<close>

theorem construct_js_equiv:
  assumes "distinct (map fst entries)"
  shows "construct_js mpos myaw mx entries cpos cdir cur
           = construct mpos myaw mx (map_of entries) cpos cdir cur"
  using for_each_play_map_of [OF assms, of cur mx]
  by (simp add: construct_js_def construct_def split: option.splits)

text \<open>
  C7. Every reachable state is well formed: after any sequence of frames (thrown or not)
  and run toggles from a constructed object whose actions carry schedulable fades, every
  fade is still schedulable, the registry is the constructor's, the current name is the
  initial one or one \<open>update\<close> selects, the orbit target is above the model, and model and
  camera keep the offset and heights they were constructed with.
\<close>

theorem reachable_wf:
  assumes "reach (construct mpos myaw mx anims cpos cdir cur) c"
    and "\<forall>j. fade_ok (actions mx j)"
  shows "ctrl_wf (construct mpos myaw mx anims cpos cdir cur) c"
  using reach_ctrl_wf [OF assms(1) ctrl_wf_construct [OF assms(2)]] .

text \<open>
  C6. A complete registry of fresh actions makes the controller safe for ever: in every
  state reachable from such a constructed object exactly one clip is current, and the next
  frame, whatever its keys and time step, does not throw.
\<close>

theorem reachable_no_throw:
  assumes "reach (construct mpos myaw mx anims cpos cdir cur) c"
    and "{''Idle'', ''Walk'', ''Run'', cur} \<subseteq> dom anims"
    and "\<forall>j \<in> ran anims. fresh_action (actions mx j)"
  shows "one_current c \<and> (\<exists>c'. update delta keys c = Inr c')"
  using reach_construct_one_current [OF assms] update_Inr_exists by blast

text \<open>
  C16. Once the fades have run out, exactly one clip shows: in every state reachable from a
  constructed object with a complete registry of fresh actions, at any mixer time by which
  every scheduled fade has ended, the current clip's action has weight 1 and the weights of
  the registered actions sum to exactly 1. This is what the cross-fade of lines 69--77 and
  the constructor's single \<open>play()\<close> achieve together; a missing \<open>fadeOut\<close> (two clips
  at full weight) or a swapped fade (no clip at full weight) breaks it.
\<close>

theorem reachable_weights_settle:
  assumes "reach (construct mpos myaw mx anims cpos cdir cur) c"
    and "{''Idle'', ''Walk'', ''Run'', cur} \<subseteq> dom anims"
    and "\<forall>j. fresh_action (actions mx j)" and "finite (dom anims)"
    and "fades_ended c t"
  shows "\<exists>i. animations_map c (current_action c) = Some i
    \<and> weight (actions (anim_mixer c) i) t = 1 \<and> total_weight c t = 1"
proof -
  have fr: "\<forall>j \<in> ran anims. fresh_action (actions mx j)" using assms(3) by blast
  have "\<forall>j. fade_ok (actions mx j)" using assms(3) by (simp add: fresh_action_def fade_ok_def)
  then have "ctrl_wf (construct mpos myaw mx anims cpos cdir cur) c"
    using reach_ctrl_wf [OF assms(1) ctrl_wf_construct] by blast
  then have m: "animations_map c = anims"
    by (simp add: ctrl_wf_def construct_def update_camera_target_def Let_def)
  have "registry_ok c" and oc: "one_current c"
    using reach_construct_one_current [OF assms(1,2) fr] by blast+
  then obtain i where i: "animations_map c (current_action c) = Some i"
    by (auto simp: registry_ok_def)
  have "finite (ran (animations_map c))" using assms(4) by (simp add: m finite_ran)
  then show ?thesis
    using one_current_ended_weights [OF oc assms(5) i] one_current_ended_total [OF oc assms(5) i] i by blast
qed

section \<open>Witnesses\<close>

lemma reach_scene_run: "reach demo_ctrl scene_run"
  by (rule reach.frame [OF reach.start update_scene_run])

lemma demo_mixer_fresh: "\<forall>j. fade_ok (actions demo_mixer j)" "\<forall>j. fresh_action (actions demo_mixer j)"
   apply (simp add: demo_mixer_def fade_ok_def new_action_def)
  by (simp add: demo_mixer_def)

theorem construct_js_equiv_witness:
  "distinct (map fst [(''Idle'', 0), (''Walk'', 1), (''Run'', 2)]) \<and>
   construct_js (vec 0 0 0) 0 demo_mixer [(''Idle'', 0), (''Walk'', 1), (''Run'', 2)] (vec 0 2 5) (vec 0 0 (-1)) ''Idle''
     = demo_ctrl"
proof -
  have "map_of [(''Idle'', 0::nat), (''Walk'', 1), (''Run'', 2)] = demo_anims"
    by (rule ext) (simp add: demo_anims_def)
  then show ?thesis
    using construct_js_equiv [of "[(''Idle'', 0), (''Walk'', 1), (''Run'', 2)]" "vec 0 0 0" 0 demo_mixer
        "vec 0 2 5" "vec 0 0 (-1)" "''Idle''"]
    by (simp add: demo_ctrl_def)
qed

theorem reachable_wf_witness:
  "reach demo_ctrl scene_run \<and> (\<forall>j. fade_ok (actions demo_mixer j)) \<and> ctrl_wf demo_ctrl scene_run"
  using reachable_wf [of "vec 0 0 0" 0 demo_mixer demo_anims "vec 0 2 5" "vec 0 0 (-1)" "''Idle''",
      folded demo_ctrl_def, OF reach_scene_run demo_mixer_fresh(1)]
    reach_scene_run demo_mixer_fresh(1) by blast

theorem reachable_no_throw_witness:
  "reach demo_ctrl scene_run \<and> {''Idle'', ''Walk'', ''Run'', ''Idle''} \<subseteq> dom demo_anims
   \<and> (\<forall>j. fresh_action (actions demo_mixer j))
   \<and> one_current scene_run \<and> (\<exists>c'. update (1/60) (press []) scene_run = Inr c')"
proof -
  have d: "{''Idle'', ''Walk'', ''Run'', ''Idle''} \<subseteq> dom demo_anims" by (simp add: demo_anims_def)
  have f: "\<forall>j \<in> ran demo_anims. fresh_action (actions demo_mixer j)" using demo_mixer_fresh(2) by blast
  show ?thesis
    using reachable_no_throw [of "vec 0 0 0" 0 demo_mixer demo_anims "vec 0 2 5" "vec 0 0 (-1)" "''Idle''",
      folded demo_ctrl_def, OF reach_scene_run d f] reach_scene_run d demo_mixer_fresh(2) by blast
qed

theorem reachable_weights_settle_witness:
  "reach demo_ctrl scene_run \<and> {''Idle'', ''Walk'', ''Run'', ''Idle''} \<subseteq> dom demo_anims
   \<and> (\<forall>j. fresh_action (actions demo_mixer j)) \<and> finite (dom demo_anims) \<and> fades_ended scene_run 1
   \<and> animations_map scene_run (current_action scene_run) = Some 2
   \<and> weight (actions (anim_mixer scene_run) 2) 1 = 1 \<and> total_weight scene_run 1 = 1"
proof -
  have d: "{''Idle'', ''Walk'', ''Run'', ''Idle''} \<subseteq> dom demo_anims" "finite (dom demo_anims)"
    by (simp_all add: demo_anims_def)
  have e: "fades_ended scene_run 1"
    by (simp add: fades_ended_def scene_run_fields ran_demo_anims scene_run_mixer new_action_def)
  have i: "animations_map scene_run (current_action scene_run) = Some 2" by (simp add: scene_run_fields)
  show ?thesis
    using reachable_weights_settle [of "vec 0 0 0" 0 demo_mixer demo_anims "vec 0 2 5" "vec 0 0 (-1)" "''Idle''",
      folded demo_ctrl_def, OF reach_scene_run d(1) demo_mixer_fresh(2) d(2) e]
      reach_scene_run d demo_mixer_fresh(2) e i by auto
qed

end
