(* ===== verification/Heading.thy ===== *)
theory Heading
  imports Controls
begin

text \<open>
  How turning (lines 89--100) and walking (lines 106--122) of \<open>update\<close> fit together.
  The orbit controls keep the camera looking at its target (\<open>looks_at_target\<close>); the
  controller keeps the target above the model. Under these two facts the heading the model
  is turned towards and the direction it walks in are the same: the model's local \<open>-z\<close>
  axis turned to the target heading. \<open>run_frames\<close> is the render loop calling \<open>update\<close>
  once per frame with the same input; with a direction held, the target heading does not
  change (camera and model move together), and the model faces it after at most
  \<open>\<lceil>\<pi> / 0.2\<rceil>\<close> frames; \<open>frames_until_facing\<close> counts them exactly.
\<close>

definition looks_at_target :: "ctrl \<Rightarrow> bool" where
  "looks_at_target c =
     (camera_dir c = vec (vx (camera_target c) - vx (camera_pos c)) (vy (camera_target c) - vy (camera_pos c))
                         (vz (camera_target c) - vz (camera_pos c)))"

definition heading_target :: "keys \<Rightarrow> ctrl \<Rightarrow> real" where
  "heading_target keys c = atan2 (fst (cam_offset c)) (snd (cam_offset c)) + direction_offset keys"

fun run_frames :: "nat \<Rightarrow> real \<Rightarrow> keys \<Rightarrow> ctrl \<Rightarrow> (js_error \<times> ctrl) + ctrl" where
  "run_frames 0 delta keys c = Inr c"
| "run_frames (Suc n) delta keys c =
     (case update delta keys c of Inl e \<Rightarrow> Inl e | Inr c' \<Rightarrow> run_frames n delta keys c')"

text \<open>The render loop observed until the model faces the heading it is turned towards:
  the number of frames that takes, or the error of a frame that throws. Nothing bounds the
  number of frames in advance, so the loop is a partial function; that it returns is a
  theorem.\<close>

partial_function (option) frames_until_facing ::
  "real \<Rightarrow> keys \<Rightarrow> ctrl \<Rightarrow> (js_error + nat) option" where
  "frames_until_facing delta keys c =
     (case update delta keys c of
        Inl (e, c') \<Rightarrow> Some (Inl e)
      | Inr c' \<Rightarrow>
          if wrap_angle (rotate_quarternion c' - model_yaw c') = 0 then Some (Inr 1)
          else Option.bind (frames_until_facing delta keys c')
                 (\<lambda>r. Some (case r of Inl e \<Rightarrow> Inl e | Inr n \<Rightarrow> Inr (Suc n))))"

text \<open>The example scene with the camera aimed at its target, and with the model turned
  away from the camera's heading.\<close>

definition orbit_ctrl :: ctrl where
  "orbit_ctrl = construct (vec 0 0 0) 0 demo_mixer demo_anims (vec 0 2 5) (vec 0 (-1) (-5)) ''Idle''"

definition turned_ctrl :: ctrl where
  "turned_ctrl = demo_ctrl\<lparr>model_yaw := pi\<rparr>"

definition aside_ctrl :: ctrl where
  "aside_ctrl = demo_ctrl\<lparr>model_yaw := 1/2\<rparr>"

lemma flat_dir_toward:
  assumes "(dx, dz) \<noteq> (0, 0)"
  shows "normalize ((normalize (vec (- dx) y (- dz)))\<lparr>vy := 0\<rparr>)
         = vec (- dx / sqrt (dx\<^sup>2 + dz\<^sup>2)) 0 (- dz / sqrt (dx\<^sup>2 + dz\<^sup>2))"
proof -
  have h: "(vx (vec (- dx) y (- dz)), vz (vec (- dx) y (- dz))) \<noteq> (0, 0)" using assms by simp
  obtain k where k: "k > 0" "vx (normalize (vec (- dx) y (- dz))) = k * - dx"
      "vz (normalize (vec (- dx) y (- dz))) = k * - dz"
    using normalize_keeps_heading [OF h] by auto
  let ?w = "(normalize (vec (- dx) y (- dz)))\<lparr>vy := 0\<rparr>"
  have r: "0 < sqrt (dx\<^sup>2 + dz\<^sup>2)" using sqrt_sum_sq_pos [OF assms] .
  have "hlen ?w = k * sqrt (dx\<^sup>2 + dz\<^sup>2)"
    using k sqrt_scaled [of "- dx" k "- dz"] by (simp add: hlen_def mult.commute)
  moreover have "hlen ?w \<noteq> 0" using k r assms by (simp add: \<open>hlen ?w = _\<close>)
  ultimately show ?thesis
    using k r by (simp add: normalize_flat vec_eq_iff vec_def)
qed
lemma rot_y_back: "rot_y (vec 0 0 (-1)) a = vec (- sin a) 0 (- cos a)"
  by (simp add: rot_y_def vec_def)

lemma walk_dir_toward:
  assumes "(dx, dz) \<noteq> (0, 0)"
  shows "walk_dir (vec (- dx) y (- dz)) off = rot_y (vec 0 0 (-1)) (atan2 dx dz + off)"
proof -
  let ?r = "sqrt (dx\<^sup>2 + dz\<^sup>2)"
  have p: "cos (atan2 dx dz) = dz / ?r" "sin (atan2 dx dz) = dx / ?r"
    using atan2_polar [of dz dx] assms by (auto simp: add.commute)
  show ?thesis
    unfolding walk_dir_rot flat_dir_toward [OF assms] rot_y_back
    by (simp add: rot_y_def vec_def sin_add cos_add p algebra_simps)
qed

lemma move_heading:
  "walk_direction (move delta keys c) = walk_dir (camera_dir c) (direction_offset keys)"
  "rotate_quarternion (move delta keys c) = angle_y_camera_direction c + direction_offset keys"
  "model_yaw (move delta keys c) =
     rotate_towards (model_yaw c) (angle_y_camera_direction c + direction_offset keys) turn_step"
  by (simp_all add: move_def Let_def)

lemma update_moves:
  assumes "update delta keys c = Inr c'"
    and "current_action c' = ''Run'' \<or> current_action c' = ''Walk''"
  obtains c2 where "c' = move delta keys c2" "model_pos c2 = model_pos c" "model_yaw c2 = model_yaw c"
    "camera_pos c2 = camera_pos c" "camera_dir c2 = camera_dir c" "camera_target c2 = camera_target c"
proof -
  from assms(1) obtain c1 where c': "c' = after_transition delta keys c1"
    and f: "model_pos c1 = model_pos c" "model_yaw c1 = model_yaw c" "camera_pos c1 = camera_pos c"
      "camera_dir c1 = camera_dir c" "camera_target c1 = camera_target c"
    by (rule update_Inr)
  with assms(2) have "current_action c1 = ''Run'' \<or> current_action c1 = ''Walk''" by simp
  with c' f show ?thesis
    by (intro that [of "c1\<lparr>anim_mixer := mixer_update delta (anim_mixer c1)\<rparr>"])
      (auto simp: after_transition_def Let_def)
qed

text \<open>
  C18. The model walks where it is turned to: when the camera looks at the orbit target and the
  target is above the model, every moving \<open>update\<close> sets the walk direction to the model's
  local \<open>-z\<close> axis rotated by the heading it is turning towards (\<open>rotateQuarternion\<close>).
\<close>

theorem walk_follows_heading:
  assumes "target_tracks c" and "looks_at_target c" and "cam_offset c \<noteq> (0, 0)"
    and "update delta keys c = Inr c'"
    and "current_action c' = ''Run'' \<or> current_action c' = ''Walk''"
  shows "walk_direction c' = rot_y (vec 0 0 (-1)) (rotate_quarternion c')"
proof -
  obtain c2 where c': "c' = move delta keys c2" and f: "model_pos c2 = model_pos c"
    "camera_pos c2 = camera_pos c" "camera_dir c2 = camera_dir c"
    using update_moves [OF assms(4,5)] by metis
  let ?dx = "vx (camera_pos c) - vx (model_pos c)" and ?dz = "vz (camera_pos c) - vz (model_pos c)"
  have nz: "(?dx, ?dz) \<noteq> (0, 0)" using assms(3) by (simp add: cam_offset_def)
  have cd: "camera_dir c = vec (- ?dx) (vy (model_pos c) + 1 - vy (camera_pos c)) (- ?dz)"
    using assms(1,2) by (simp add: looks_at_target_def target_tracks_def)
  show ?thesis
    using walk_dir_toward [OF nz] by (simp add: c' move_heading f cd angle_y_camera_direction_def)
qed
lemma update_moving_turn:
  assumes "direction_pressed keys" and u: "update delta keys c = Inr c'"
  shows "rotate_quarternion c' = heading_target keys c
    \<and> model_yaw c' = rotate_towards (model_yaw c) (heading_target keys c) turn_step
    \<and> cam_offset c' = cam_offset c"
proof -
  have mv: "current_action c' = ''Run'' \<or> current_action c' = ''Walk''"
    using update_Inr_frame [OF u] assms(1) by (simp add: select_play_def)
  obtain c2 where c': "c' = move delta keys c2" and f: "model_pos c2 = model_pos c"
    "model_yaw c2 = model_yaw c" "camera_pos c2 = camera_pos c"
    using update_moves [OF u mv] by metis
  have a: "angle_y_camera_direction c2 = atan2 (fst (cam_offset c)) (snd (cam_offset c))"
    by (simp add: angle_y_camera_direction_def cam_offset_def f)
  from u obtain c1 where "c' = after_transition delta keys c1"
    "model_pos c1 = model_pos c" "camera_pos c1 = camera_pos c"
    by (rule update_Inr)
  then have "cam_offset c' = cam_offset c1" by (simp add: cam_offset_after_transition)
  also have "\<dots> = cam_offset c" using \<open>model_pos c1 = _\<close> \<open>camera_pos c1 = _\<close>
    by (simp add: cam_offset_def)
  finally have "cam_offset c' = cam_offset c" .
  with a show ?thesis by (simp add: c' move_heading f heading_target_def)
qed

lemma max_step:
  assumes "0 \<le> s" "0 \<le> n"
  shows "max 0 (max 0 (d - s) - n * s) = max 0 (d - (n + 1) * (s::real))"
proof (cases "d \<le> s")
  case True
  have ns: "0 \<le> n * s" using assms by simp
  with True have "max 0 (d - s) - n * s \<le> 0" by simp
  moreover have "d - (n + 1) * s \<le> 0" using True ns by (simp add: algebra_simps)
  ultimately show ?thesis by simp
next
  case False
  then show ?thesis by (simp add: algebra_simps)
qed

lemma run_frames_turn:
  assumes "registry_ok c" and "direction_pressed keys"
  shows "\<exists>c'. run_frames n delta keys c = Inr c' \<and> registry_ok c'
    \<and> heading_target keys c' = heading_target keys c
    \<and> \<bar>wrap_angle (heading_target keys c - model_yaw c')\<bar>
        = max 0 (\<bar>wrap_angle (heading_target keys c - model_yaw c)\<bar> - real n * turn_step)
    \<and> (0 < n \<longrightarrow> rotate_quarternion c' = heading_target keys c)"
  using assms(1)
proof (induction n arbitrary: c)
  case 0
  then show ?case by simp
next
  case (Suc n)
  obtain c1 where u: "update delta keys c = Inr c1"
    using update_Inr_exists [OF Suc.prems] by blast
  have r1: "registry_ok c1" by (rule registry_ok_update [OF Suc.prems u])
  have t: "rotate_quarternion c1 = heading_target keys c"
    "model_yaw c1 = rotate_towards (model_yaw c) (heading_target keys c) turn_step"
    "heading_target keys c1 = heading_target keys c"
    using update_moving_turn [OF assms(2) u] by (simp_all add: heading_target_def)
  obtain c' where IH: "run_frames n delta keys c1 = Inr c'" "registry_ok c'"
    "heading_target keys c' = heading_target keys c1"
    "\<bar>wrap_angle (heading_target keys c1 - model_yaw c')\<bar>
       = max 0 (\<bar>wrap_angle (heading_target keys c1 - model_yaw c1)\<bar> - real n * turn_step)"
    "0 < n \<longrightarrow> rotate_quarternion c' = heading_target keys c1"
    using Suc.IH [OF r1] by blast
  have "\<bar>wrap_angle (heading_target keys c - model_yaw c')\<bar>
      = max 0 (\<bar>wrap_angle (heading_target keys c - model_yaw c)\<bar> - real (Suc n) * turn_step)"
    using IH(4) t rotate_towards_progress [OF turn_step_bounds(1)]
      max_step [OF turn_step_bounds(1), of "real n"]
    by (simp add: algebra_simps)
  moreover have "rotate_quarternion c' = heading_target keys c"
    using IH(1,5) t by (cases n) auto
  ultimately show ?case using u IH t by simp
qed

text \<open>
  C19. Turning terminates: with a direction held and the registry complete, the render loop's
  frames never throw, and after any number of frames \<open>n\<close> with \<open>n \<cdot> 0.2 \<ge> \<pi>\<close> the
  model faces its target heading exactly.
\<close>

theorem turn_converges:
  assumes "registry_ok c" and "direction_pressed keys" and "pi \<le> real n * turn_step"
  shows "\<exists>c'. run_frames n delta keys c = Inr c' \<and> wrap_angle (rotate_quarternion c' - model_yaw c') = 0"
proof -
  obtain c' where r: "run_frames n delta keys c = Inr c'"
    and d: "\<bar>wrap_angle (heading_target keys c - model_yaw c')\<bar>
       = max 0 (\<bar>wrap_angle (heading_target keys c - model_yaw c)\<bar> - real n * turn_step)"
    and q: "0 < n \<longrightarrow> rotate_quarternion c' = heading_target keys c"
    using run_frames_turn [OF assms(1,2)] by blast
  have "0 < n" using assms(3) pi_gt_zero by (cases n) auto
  moreover have "\<bar>wrap_angle (heading_target keys c - model_yaw c)\<bar> \<le> pi"
    using wrap_angle_range [of "heading_target keys c - model_yaw c"] by (simp add: abs_le_iff)
  ultimately show ?thesis using r d q assms(3) by auto
qed
lemma frames_until_facing_count_aux:
  assumes "registry_ok c" and "direction_pressed keys"
    and "nat \<lceil>\<bar>wrap_angle (heading_target keys c - model_yaw c)\<bar> / turn_step\<rceil> = n"
  shows "frames_until_facing delta keys c = Some (Inr (max 1 n))"
  using assms(1,3)
proof (induction n arbitrary: c rule: less_induct)
  case (less n c)
  define H where "H = heading_target keys c"
  define d where "d = \<bar>wrap_angle (H - model_yaw c)\<bar>"
  obtain c1 where u: "update delta keys c = Inr c1"
    using update_Inr_exists [OF less.prems(1)] by blast
  have r1: "registry_ok c1" by (rule registry_ok_update [OF less.prems(1) u])
  have t: "rotate_quarternion c1 = H" "model_yaw c1 = rotate_towards (model_yaw c) H turn_step"
    "heading_target keys c1 = H"
    using update_moving_turn [OF assms(2) u] by (simp_all add: H_def heading_target_def)
  have d1: "\<bar>wrap_angle (H - model_yaw c1)\<bar> = max 0 (d - turn_step)"
    using rotate_towards_progress [OF turn_step_bounds(1)] by (simp add: d_def t(2))
  have f: "frames_until_facing delta keys c =
      (if wrap_angle (H - model_yaw c1) = 0 then Some (Inr 1)
       else Option.bind (frames_until_facing delta keys c1)
              (\<lambda>r. Some (case r of Inl e \<Rightarrow> Inl e | Inr n \<Rightarrow> Inr (Suc n))))"
    by (simp add: frames_until_facing.simps [of delta keys c] u t(1))
  have s: "turn_step = 1/5" by (simp add: turn_step_def)
  have n: "nat \<lceil>d * 5\<rceil> = n" using less.prems(2) by (simp add: d_def H_def s)
  have d0: "0 \<le> d" by (simp add: d_def)
  show ?case
  proof (cases "d \<le> turn_step")
    case True
    then have "wrap_angle (H - model_yaw c1) = 0" using d1 by simp
    moreover have "n \<le> 1"
    proof -
      have "d * 5 \<le> 1" using True s by simp
      then have "\<lceil>d * 5\<rceil> \<le> 1" by (simp add: ceiling_le_iff)
      with n show ?thesis by linarith
    qed
    ultimately show ?thesis using f by simp
  next
    case False
    then have nz: "wrap_angle (H - model_yaw c1) \<noteq> 0" using d1 by auto
    have c5: "\<lceil>(d - turn_step) * 5\<rceil> = \<lceil>d * 5\<rceil> - 1"
      using s ceiling_diff_one [of "d * 5"] by (simp add: algebra_simps)
    have c2: "2 \<le> \<lceil>d * 5\<rceil>" using False s by (simp add: le_ceiling_iff)
    have e: "\<bar>wrap_angle (heading_target keys c1 - model_yaw c1)\<bar> / turn_step = (d - turn_step) * 5"
      using d1 False unfolding turn_step_def by (simp add: t(3) field_simps)
    have n1: "nat \<lceil>\<bar>wrap_angle (heading_target keys c1 - model_yaw c1)\<bar> / turn_step\<rceil> = n - 1"
      unfolding e c5 using n nat_diff_distrib [of 1 "\<lceil>d * 5\<rceil>"] c2 by simp
    have n2: "2 \<le> n" using n c2 by linarith
    have "frames_until_facing delta keys c1 = Some (Inr (max 1 (n - 1)))"
      using less.IH [OF _ r1 n1] n2 by simp
    then show ?thesis using f nz n2 by (simp add: Suc_diff_1)
  qed
qed

text \<open>
  C20. The turning loop terminates: with a direction held and a complete registry, running
  frames until the model faces the heading it is turned towards returns, after exactly
  \<open>max 1 \<lceil>e / 0.2\<rceil>\<close> frames for a heading error \<open>e\<close>, and so within
  \<open>\<lceil>\<pi> / 0.2\<rceil>\<close> frames from any orientation.
\<close>

theorem frames_until_facing_count:
  assumes "registry_ok c" and "direction_pressed keys"
  shows "frames_until_facing delta keys c
           = Some (Inr (max 1 (nat \<lceil>\<bar>wrap_angle (heading_target keys c - model_yaw c)\<bar> / turn_step\<rceil>)))
         \<and> max 1 (nat \<lceil>\<bar>wrap_angle (heading_target keys c - model_yaw c)\<bar> / turn_step\<rceil>)
             \<le> nat \<lceil>pi / turn_step\<rceil>"
proof -
  let ?d = "\<bar>wrap_angle (heading_target keys c - model_yaw c)\<bar>"
  have "?d \<le> pi"
    using wrap_angle_range [of "heading_target keys c - model_yaw c"] by (simp add: abs_le_iff)
  then have "?d / turn_step \<le> pi / turn_step"
    using turn_step_bounds(1) by (simp add: divide_right_mono)
  then have le: "nat \<lceil>?d / turn_step\<rceil> \<le> nat \<lceil>pi / turn_step\<rceil>" by (intro nat_mono ceiling_mono)
  have "1 \<le> pi / turn_step" using pi_ge_two by (simp add: turn_step_def)
  then have "1 \<le> nat \<lceil>pi / turn_step\<rceil>" by linarith
  with le show ?thesis using frames_until_facing_count_aux [OF assms refl] by simp
qed

section \<open>Witnesses\<close>

lemma orbit_fields [simp]:
  "animations_map orbit_ctrl = demo_anims" "current_action orbit_ctrl = ''Idle''"
  "toggle_run orbit_ctrl = True"
  by (simp_all add: orbit_ctrl_def construct_def update_camera_target_def Let_def split: option.splits)

lemma orbit_ctrl_facts:
  "target_tracks orbit_ctrl" "looks_at_target orbit_ctrl" "cam_offset orbit_ctrl \<noteq> (0, 0)"
  "registry_ok orbit_ctrl"
  by (simp_all add: orbit_ctrl_def construct_def update_camera_target_def Let_def target_tracks_def
      looks_at_target_def cam_offset_def registry_ok_def demo_anims_def vec_eq_iff)

theorem walk_follows_heading_witness:
  "target_tracks orbit_ctrl \<and> looks_at_target orbit_ctrl \<and> cam_offset orbit_ctrl \<noteq> (0, 0) \<and>
   (\<exists>c'. update (1/2) (press [W]) orbit_ctrl = Inr c' \<and> current_action c' = ''Run'' \<and>
      walk_direction c' = rot_y (vec 0 0 (-1)) (rotate_quarternion c'))"
proof -
  obtain c' where u: "update (1/2) (press [W]) orbit_ctrl = Inr c'"
    using update_Inr_exists [OF orbit_ctrl_facts(4)] by blast
  have r: "current_action c' = ''Run''"
    using update_Inr_frame [OF u] by (simp add: select_play_def)
  show ?thesis
    using walk_follows_heading [OF orbit_ctrl_facts(1-3) u] u r orbit_ctrl_facts by auto
qed

theorem turn_converges_witness:
  "registry_ok turned_ctrl \<and> direction_pressed (press [W]) \<and> pi \<le> real 20 * turn_step \<and>
   (\<exists>c'. run_frames 20 (1/60) (press [W]) turned_ctrl = Inr c' \<and>
      wrap_angle (rotate_quarternion c' - model_yaw c') = 0)"
proof -
  have h: "registry_ok turned_ctrl" "direction_pressed (press [W])" "pi \<le> real 20 * turn_step"
    using demo_registry_ok pi_less_4 by (simp_all add: turned_ctrl_def registry_ok_def turn_step_def)
  show ?thesis using turn_converges [OF h] h by blast
qed

theorem frames_until_facing_count_witness:
  "registry_ok aside_ctrl \<and> direction_pressed (press [W]) \<and>
   frames_until_facing (1/60) (press [W]) aside_ctrl = Some (Inr 3)"
proof -
  have h: "registry_ok aside_ctrl" "direction_pressed (press [W])"
    using demo_registry_ok by (simp_all add: aside_ctrl_def registry_ok_def)
  have ht: "heading_target (press [W]) aside_ctrl = 0"
    by (simp add: heading_target_def cam_offset_def aside_ctrl_def demo_defs update_camera_target_def
        Let_def atan2_def direction_offset_def press_def split: option.splits)
  have w: "wrap_angle (- (1/2)) = - (1/2)"
    by (rule wrap_angle_id) (use pi_ge_two in auto)
  have "nat \<lceil>\<bar>wrap_angle (heading_target (press [W]) aside_ctrl - model_yaw aside_ctrl)\<bar> / turn_step\<rceil> = 3"
  proof -
    have y: "model_yaw aside_ctrl = 1/2" by (simp add: aside_ctrl_def)
    have "\<lceil>(1/2::real) * 5\<rceil> = 3" by simp
    then show ?thesis by (simp add: ht y w turn_step_def)
  qed
  then show ?thesis using frames_until_facing_count [OF h, of "1/60"] h by simp
qed

end
