(* ===== verification/Turning.thy ===== *)
theory Turning
  imports Controls
begin

text \<open>
  How the model is turned (lines 96--100 of \<open>update\<close>): the target orientation is
  \<open>rotateQuarternion.setFromAxisAngle(rotateAngle, angle)\<close>, and
  \<open>model.quaternion.rotateTowards(rotateQuarternion, 0.2)\<close> moves the model's quaternion
  towards it by spherical interpolation. The three.js methods are modelled from their source
  (\<open>Quaternion.angleTo\<close>, \<open>slerp\<close>, \<open>rotateTowards\<close>), with JavaScript numbers as reals and
  \<open>Number.EPSILON\<close> as \<open>2\<^sup>-\<^sup>5\<^sup>2\<close>. The controller model of \<open>Controls\<close> keeps the model's
  orientation as a yaw angle and turns it with \<open>rotate_towards\<close>; this theory proves that the
  quaternion code refines that model for every heading error short of a half turn, and that at
  an exact half turn the code's direction depends on how the target angle is written.
\<close>

definition number_epsilon :: real where
  "number_epsilon = 1 / 2 ^ 52"

text \<open>\<open>q.angleTo(p) = 2 * Math.acos(Math.abs(clamp(q.dot(p), -1, 1)))\<close>.\<close>

definition angle_to :: "quat \<Rightarrow> quat \<Rightarrow> real" where
  "angle_to p q =
     2 * arccos \<bar>max (- 1) (min 1 (qx p * qx q + qy p * qy q + qz p * qz q + qw p * qw q))\<bar>"

text \<open>\<open>Quaternion.slerp(qb, t)\<close>, branch for branch: the early returns for \<open>t = 0\<close> and
  \<open>t = 1\<close>, the flip of \<open>qb\<close> onto the near hemisphere, the return of the unchanged
  quaternion when the two coincide, the normalised linear blend when the angle is below
  \<open>Number.EPSILON\<close>, and the spherical blend otherwise.\<close>

definition slerp :: "quat \<Rightarrow> quat \<Rightarrow> real \<Rightarrow> quat" where
  "slerp p qb t =
     (if t = 0 then p else if t = 1 then qb else
      let x = qx p; y = qy p; z = qz p; w = qw p;
          cos0 = w * qw qb + x * qx qb + y * qy qb + z * qz qb;
          r = (if cos0 < 0 then \<lparr>qx = - qx qb, qy = - qy qb, qz = - qz qb, qw = - qw qb\<rparr> else qb);
          cos_half = (if cos0 < 0 then - cos0 else cos0)
      in if 1 \<le> cos_half then p
         else let sqr_sin_half = 1 - cos_half * cos_half in
           if sqr_sin_half \<le> number_epsilon then
             (let s = 1 - t;
                  q = \<lparr>qx = s * x + t * qx r, qy = s * y + t * qy r, qz = s * z + t * qz r,
                       qw = s * w + t * qw r\<rparr>;
                  l = sqrt ((qx q)\<^sup>2 + (qy q)\<^sup>2 + (qz q)\<^sup>2 + (qw q)\<^sup>2)
              in if l = 0 then \<lparr>qx = 0, qy = 0, qz = 0, qw = 1\<rparr>
                 else \<lparr>qx = qx q / l, qy = qy q / l, qz = qz q / l, qw = qw q / l\<rparr>)
           else
             (let sin_half = sqrt sqr_sin_half;
                  half = atan2 sin_half cos_half;
                  ratio_a = sin ((1 - t) * half) / sin_half;
                  ratio_b = sin (t * half) / sin_half
              in \<lparr>qx = x * ratio_a + qx r * ratio_b, qy = y * ratio_a + qy r * ratio_b,
                  qz = z * ratio_a + qz r * ratio_b, qw = w * ratio_a + qw r * ratio_b\<rparr>))"

text \<open>\<open>Quaternion.rotateTowards(q, step)\<close>.\<close>

definition rotate_towards_q :: "quat \<Rightarrow> quat \<Rightarrow> real \<Rightarrow> quat" where
  "rotate_towards_q p q step =
     (let angle = angle_to p q in if angle = 0 then p else slerp p q (min 1 (step / angle)))"

text \<open>Lines 96--100: the new orientation of the model from its old one and the target
  heading \<open>angleYCameraDirection + directionOffset\<close>.\<close>

definition turn_model :: "quat \<Rightarrow> real \<Rightarrow> quat" where
  "turn_model model_q target =
     rotate_towards_q model_q (set_from_axis_angle rotate_angle target) turn_step"

text \<open>The abstraction: the quaternion of a yaw angle, as \<open>setFromAxisAngle\<close> builds it.\<close>

definition yaw_quat :: "real \<Rightarrow> quat" where
  "yaw_quat a = set_from_axis_angle rotate_angle a"

section \<open>Lemmas\<close>

lemma yaw_quat_sel [simp]:
  "qx (yaw_quat a) = 0" "qy (yaw_quat a) = sin (a / 2)" "qz (yaw_quat a) = 0"
  "qw (yaw_quat a) = cos (a / 2)"
  by (simp_all add: yaw_quat_def set_from_axis_angle_def rotate_angle_def Let_def)

lemma yaw_quat_eq: "yaw_quat a = \<lparr>qx = 0, qy = sin (a / 2), qz = 0, qw = cos (a / 2)\<rparr>"
  by (simp add: yaw_quat_def set_from_axis_angle_def rotate_angle_def Let_def)

lemma yaw_dot: "cos (a / 2) * cos (b / 2) + sin (a / 2) * sin (b / 2) = cos ((b - a) / (2::real))"
  using cos_diff [of "b / 2" "a / 2"] by (simp add: diff_divide_distrib algebra_simps)

text \<open>Shifting by a whole number of half turns changes a sine or cosine at most in sign.\<close>

lemma cos_pi_int: "cos (pi * of_int n) = 1 \<or> cos (pi * of_int n) = - 1"
proof -
  have "(cos (pi * of_int n))\<^sup>2 = 1" using sin_cos_squared_add [of "pi * of_int n"] by simp
  then show ?thesis by (simp add: power2_eq_1_iff)
qed

lemma half_turn_shift:
  "cos (x + pi * of_int n) = cos (pi * of_int n) * cos x"
  "sin (x + pi * of_int n) = cos (pi * of_int n) * sin x"
  by (simp_all add: cos_add sin_add)

lemma abs_cos_half_wrap: "\<bar>cos (x / 2)\<bar> = cos (\<bar>wrap_angle x\<bar> / 2)"
proof -
  obtain n :: int where x: "x = wrap_angle x + 2 * pi * of_int n" using wrap_angle_eq by blast
  have xh: "x / 2 = wrap_angle x / 2 + pi * of_int n" by (subst x) (simp add: field_simps)
  define c where "c = cos (pi * of_int n)"
  have "cos (x / 2) = c * cos (wrap_angle x / 2)"
    unfolding c_def by (subst xh) (rule half_turn_shift(1))
  moreover have "c = 1 \<or> c = - 1" unfolding c_def by (rule cos_pi_int)
  ultimately have c: "\<bar>cos (x / 2)\<bar> = \<bar>cos (wrap_angle x / 2)\<bar>" by (auto simp: abs_mult)
  have r: "- pi < wrap_angle x" "wrap_angle x \<le> pi" using wrap_angle_range by auto
  have "0 \<le> cos (wrap_angle x / 2)" using r by (intro cos_ge_zero) auto
  moreover have "cos (wrap_angle x / 2) = cos (\<bar>wrap_angle x\<bar> / 2)"
    by (cases "0 \<le> wrap_angle x") (simp_all add: abs_if)
  ultimately show ?thesis using c by simp
qed

lemma angle_to_yaw: "angle_to (yaw_quat a) (yaw_quat b) = \<bar>wrap_angle (b - a)\<bar>"
proof -
  let ?d = "\<bar>wrap_angle (b - a)\<bar>"
  have dot: "qx (yaw_quat a) * qx (yaw_quat b) + qy (yaw_quat a) * qy (yaw_quat b)
      + qz (yaw_quat a) * qz (yaw_quat b) + qw (yaw_quat a) * qw (yaw_quat b) = cos ((b - a) / 2)"
    using yaw_dot [of a b] by (simp add: algebra_simps)
  have mm: "max (- 1) (min 1 (cos ((b - a) / 2))) = cos ((b - a) / 2)" by simp
  have "angle_to (yaw_quat a) (yaw_quat b) = 2 * arccos (cos (?d / 2))"
    by (simp only: angle_to_def dot mm abs_cos_half_wrap)
  moreover have "0 \<le> ?d / 2" "?d / 2 \<le> pi"
    using wrap_angle_range [of "b - a"] by auto
  ultimately show ?thesis by (simp add: arccos_cos)
qed

text \<open>The identity behind spherical interpolation on the unit circle.\<close>

lemma slerp_sin_uv:
  "sin al * sin v + sin (al + (u + v)) * sin u = sin (u + v) * sin (al + (u::real))"
proof -
  have "sin al * sin v + sin (al + (u + v)) * sin u - sin (u + v) * sin (al + u)
      = sin al * sin v * (1 - ((sin u)\<^sup>2 + (cos u)\<^sup>2))"
    by (simp add: sin_add cos_add power2_eq_square algebra_simps
        del: sin_cos_squared_add sin_cos_squared_add2 sin_cos_squared_add3)
  then show ?thesis by simp
qed

lemma slerp_cos_uv:
  "cos al * sin v + cos (al + (u + v)) * sin u = sin (u + v) * cos (al + (u::real))"
proof -
  have "cos al * sin v + cos (al + (u + v)) * sin u - sin (u + v) * cos (al + u)
      = cos al * sin v * (1 - ((sin u)\<^sup>2 + (cos u)\<^sup>2))"
    by (simp add: sin_add cos_add power2_eq_square algebra_simps
        del: sin_cos_squared_add sin_cos_squared_add2 sin_cos_squared_add3)
  then show ?thesis by simp
qed

lemma slerp_circle:
  assumes "sin p \<noteq> 0"
  shows "sin (al::real) * (sin ((1 - t) * p) / sin p) + sin (al + p) * (sin (t * p) / sin p) = sin (al + t * p)"
    and "cos al * (sin ((1 - t) * p) / sin p) + cos (al + p) * (sin (t * p) / sin p) = cos (al + t * p)"
proof -
  have p: "p = t * p + (1 - t) * p" by (simp add: algebra_simps)
  have "sin al * sin ((1 - t) * p) + sin (al + p) * sin (t * p) = sin p * sin (al + t * p)"
    using slerp_sin_uv [of al "(1 - t) * p" "t * p"] by (simp add: algebra_simps flip: p)
  then show "sin al * (sin ((1 - t) * p) / sin p) + sin (al + p) * (sin (t * p) / sin p) = sin (al + t * p)"
    using assms by (simp add: field_simps)
  have "cos al * sin ((1 - t) * p) + cos (al + p) * sin (t * p) = sin p * cos (al + t * p)"
    using slerp_cos_uv [of al "(1 - t) * p" "t * p"] by (simp add: algebra_simps flip: p)
  then show "cos al * (sin ((1 - t) * p) / sin p) + cos (al + p) * (sin (t * p) / sin p) = cos (al + t * p)"
    using assms by (simp add: field_simps)
qed

lemma sin_ratio_abs: "sin (k * \<bar>p\<bar>) / sin \<bar>p\<bar> = sin (k * p) / sin (p::real)"
  by (cases "0 \<le> p") (simp_all add: abs_if)

lemma atan2_first_quadrant: "0 < q \<Longrightarrow> q < pi / 2 \<Longrightarrow> atan2 (sin q) (cos q) = q"
proof -
  assume q: "0 < q" "q < pi / 2"
  then have "0 < cos q" by (intro cos_gt_zero) auto
  moreover have "arctan (tan q) = q" using q by (intro arctan_tan) auto
  ultimately show ?thesis by (simp add: atan2_def tan_def)
qed

lemma slerp_yaw:
  assumes t: "0 < t" "t < 1"
    and d0: "wrap_angle (b - a) \<noteq> 0" and dpi: "\<bar>wrap_angle (b - a)\<bar> < pi"
    and e: "number_epsilon < (sin (\<bar>wrap_angle (b - a)\<bar> / 2))\<^sup>2"
  shows "slerp (yaw_quat a) (yaw_quat b) t = yaw_quat (a + t * wrap_angle (b - a))"
proof -
  define d where "d = wrap_angle (b - a)"
  define p where "p = d / 2"
  obtain n :: int where bn: "b - a = d + 2 * pi * of_int n"
    using wrap_angle_eq unfolding d_def by blast
  define c where "c = cos (pi * of_int n)"
  have c1: "c = 1 \<or> c = - 1" unfolding c_def by (rule cos_pi_int)
  have bh: "b / 2 = (a / 2 + p) + pi * of_int n" using bn by (simp add: p_def field_simps)
  have qb: "yaw_quat b = \<lparr>qx = 0, qy = c * sin (a / 2 + p), qz = 0, qw = c * cos (a / 2 + p)\<rparr>"
    unfolding yaw_quat_eq c_def bh half_turn_shift ..
  have ab: "(b - a) / 2 = p + pi * of_int n" using bn by (simp add: p_def field_simps)
  have "cos (a / 2) * (c * cos (a / 2 + p)) + sin (a / 2) * (c * sin (a / 2 + p)) = c * cos p"
    using yaw_dot [of a b] unfolding ab half_turn_shift(1) bh half_turn_shift c_def
    by (simp add: algebra_simps)
  then have dot: "cos (a / 2) * (c * cos (a / 2 + p)) + 0 * 0 + sin (a / 2) * (c * sin (a / 2 + p)) + 0 * 0
      = c * cos p" by simp
  have pr: "\<bar>p\<bar> < pi / 2" "0 < \<bar>p\<bar>" using dpi d0 by (auto simp: p_def d_def)
  have cp: "0 < cos p" using pr by (intro cos_gt_zero_pi) auto
  have sp: "0 < sin \<bar>p\<bar>" using pr by (intro sin_gt_zero) auto
  have h1: "\<not> 1 \<le> cos p"
    using cos_monotone_0_pi [of 0 "\<bar>p\<bar>"] pr by simp
  have sq: "1 - cos p * cos p = (sin \<bar>p\<bar>)\<^sup>2"
    using sin_cos_squared_add [of p] by (simp add: power2_eq_square abs_if algebra_simps)
  have h2: "\<not> 1 - cos p * cos p \<le> number_epsilon"
    using e sq by (simp add: p_def d_def)
  have h3: "sqrt (1 - cos p * cos p) = sin \<bar>p\<bar>" using sq sp by simp
  have h4: "atan2 (sin \<bar>p\<bar>) (cos p) = \<bar>p\<bar>"
    using atan2_first_quadrant [of "\<bar>p\<bar>"] pr by simp
  have snz: "sin p \<noteq> 0" using sp by (cases "0 \<le> p") (auto simp: abs_if)
  have circ: "sin (a / 2) * (sin ((1 - t) * p) / sin p) + sin (a / 2 + p) * (sin (t * p) / sin p)
      = sin (a / 2 + t * p)"
    "cos (a / 2) * (sin ((1 - t) * p) / sin p) + cos (a / 2 + p) * (sin (t * p) / sin p)
      = cos (a / 2 + t * p)"
    using slerp_circle [OF snz] by simp_all
  have circ': "sin (a / 2) * (sin ((1 - t) * \<bar>p\<bar>) / sin \<bar>p\<bar>) + sin (a / 2 + p) * (sin (t * \<bar>p\<bar>) / sin \<bar>p\<bar>)
      = sin (a / 2 + t * p)"
    "cos (a / 2) * (sin ((1 - t) * \<bar>p\<bar>) / sin \<bar>p\<bar>) + cos (a / 2 + p) * (sin (t * \<bar>p\<bar>) / sin \<bar>p\<bar>)
      = cos (a / 2 + t * p)"
    by (simp_all only: sin_ratio_abs circ)
  have tgt: "yaw_quat (a + t * d) = \<lparr>qx = 0, qy = sin (a / 2 + t * p), qz = 0, qw = cos (a / 2 + t * p)\<rparr>"
    by (simp add: yaw_quat_eq p_def add_divide_distrib)
  have ne: "t \<noteq> 0" "t \<noteq> 1" using t by simp_all
  from c1 show ?thesis
  proof
    assume c: "c = 1"
    have "\<not> cos p < 0" using cp by simp
    then show ?thesis
      unfolding d_def [symmetric] tgt slerp_def qb yaw_quat_eq [of a]
      using dot c h1 h2 h3 h4 ne circ' by (simp add: Let_def)
  next
    assume c: "c = - 1"
    have "- cos p < 0" using cp by simp
    then show ?thesis
      unfolding d_def [symmetric] tgt slerp_def qb yaw_quat_eq [of a]
      using dot c h1 h2 h3 h4 ne circ' by (simp add: Let_def)
  qed
qed

lemma rotate_towards_q_yaw:
  assumes st: "0 < step" "step \<le> pi" and e: "number_epsilon < (sin (step / 2))\<^sup>2"
    and dpi: "\<bar>wrap_angle (b - a)\<bar> < pi"
  shows "rotate_towards_q (yaw_quat a) (yaw_quat b) step = yaw_quat (rotate_towards a b step)"
proof -
  define d where "d = wrap_angle (b - a)"
  have angle: "angle_to (yaw_quat a) (yaw_quat b) = \<bar>d\<bar>" by (simp add: angle_to_yaw d_def)
  show ?thesis
  proof (cases "d = 0")
    case True
    then show ?thesis by (simp add: rotate_towards_q_def angle rotate_towards_def flip: d_def)
  next
    case d0: False
    show ?thesis
    proof (cases "\<bar>d\<bar> \<le> step")
      case True
      then have "min 1 (step / \<bar>d\<bar>) = 1" using d0 by (simp add: field_simps)
      with True d0 show ?thesis
        by (simp add: rotate_towards_q_def angle rotate_towards_def slerp_def flip: d_def)
    next
      case False
      define t where "t = step / \<bar>d\<bar>"
      have t: "0 < t" "t < 1" "min 1 (step / \<bar>d\<bar>) = t"
        using False st d0 by (simp_all add: t_def field_simps)
      have "sin (step / 2) < sin (\<bar>d\<bar> / 2)"
        using False st dpi by (intro sin_monotone_2pi) (auto simp: d_def)
      moreover have "0 < sin (step / 2)" using st by (intro sin_gt_zero) auto
      ultimately have "(sin (step / 2))\<^sup>2 < (sin (\<bar>d\<bar> / 2))\<^sup>2"
        by (simp add: power_strict_mono)
      with e have e': "number_epsilon < (sin (\<bar>wrap_angle (b - a)\<bar> / 2))\<^sup>2" by (simp add: d_def)
      have td: "t * d = sgn d * step" using d0 by (simp add: t_def sgn_if)
      have "slerp (yaw_quat a) (yaw_quat b) t = yaw_quat (a + sgn d * step)"
        using slerp_yaw [OF t(1,2) _ dpi e'] d0 td by (simp add: d_def)
      then show ?thesis
        using False d0 t by (simp add: rotate_towards_q_def angle rotate_towards_def flip: d_def)
    qed
  qed
qed

lemma sin_tenth: "19 / 200 \<le> sin (1 / 10 :: real)"
proof -
  have "\<bar>sin (1 / 10) - (\<Sum>m<2. sin_coeff m * (1 / 10) ^ m)\<bar> \<le> inverse (fact 2) * \<bar>1 / 10 :: real\<bar> ^ 2"
    by (rule Maclaurin_sin_bound)
  then have "\<bar>sin (1 / 10) - 1 / 10\<bar> \<le> (1 / 200 :: real)"
    by (simp add: sin_coeff_def numeral_2_eq_2)
  then show ?thesis by linarith
qed

lemma turn_step_epsilon: "number_epsilon < (sin (turn_step / 2))\<^sup>2"
proof -
  have "(19 / 200)\<^sup>2 \<le> (sin (1 / 10 :: real))\<^sup>2"
    using sin_tenth by (intro power_mono) auto
  moreover have "number_epsilon < (19 / 200)\<^sup>2" by (simp add: number_epsilon_def power2_eq_square)
  ultimately show ?thesis by (simp add: turn_step_def)
qed

lemma turn_model_yaw:
  "\<bar>wrap_angle (target - y)\<bar> < pi \<Longrightarrow>
   turn_model (yaw_quat y) target = yaw_quat (rotate_towards y target turn_step)"
  unfolding turn_model_def yaw_quat_def [of target, symmetric]
  using turn_step_bounds pi_ge_two turn_step_epsilon
  by (intro rotate_towards_q_yaw) (auto simp: turn_step_def)

lemma slerp_half_turn:
  assumes s: "s = 1 \<or> s = - 1" and t: "0 < t" "t < 1"
  shows "slerp (yaw_quat 0) (yaw_quat (s * pi)) t = yaw_quat (s * (t * pi))"
proof -
  have q: "yaw_quat (s * pi) = \<lparr>qx = 0, qy = s, qz = 0, qw = 0\<rparr>"
    using s by (auto simp: yaw_quat_eq)
  have a: "atan2 1 0 = pi / 2" by (simp add: atan2_def)
  have e: "\<not> 1 \<le> number_epsilon" by (simp add: number_epsilon_def)
  have e1: "(1 - t) * pi / 2 = pi / 2 - t * pi / 2" by (simp add: field_simps)
  have w: "sin ((1 - t) * pi / 2) = cos (t * pi / 2)" unfolding e1 sin_diff by simp
  have "sin (s * (t * pi) / 2) = s * sin (t * pi / 2)" "cos (s * (t * pi) / 2) = cos (t * pi / 2)"
    using s by auto
  then show ?thesis
    using t e by (simp add: slerp_def Let_def q a w yaw_quat_eq [of 0] yaw_quat_eq [of "s * (t * pi)"])
qed

lemma turn_model_half_turn:
  assumes "s = 1 \<or> s = - 1"
  shows "turn_model (yaw_quat 0) (s * pi) = yaw_quat (s * turn_step)"
proof -
  have w: "wrap_angle (s * pi) = pi"
  proof (cases "s = 1")
    case True then show ?thesis by (simp add: wrap_angle_id)
  next
    case False
    with assms have "s * pi = pi + 2 * pi * of_int (- 1)" by simp
    then show ?thesis by (simp only: wrap_angle_shift) (simp add: wrap_angle_id)
  qed
  have t: "0 < turn_step / pi" "turn_step / pi < 1" "min 1 (turn_step / pi) = turn_step / pi"
    using turn_step_bounds pi_gt_zero by (simp_all add: turn_step_def field_simps)
  have "turn_step / pi * pi = turn_step" by simp
  then show ?thesis
    using slerp_half_turn [OF assms t(1,2)] t
    by (simp add: turn_model_def rotate_towards_q_def angle_to_yaw w flip: yaw_quat_def)
qed

section \<open>Properties\<close>

text \<open>
  C17. The controller's turn refines the quaternion code: whenever the heading error is short of
  a half turn, the yaw that \<open>move\<close> gives the model is exactly the orientation
  \<open>model.quaternion.rotateTowards(rotateQuarternion, 0.2)\<close> computes (lines 96--100) from the
  model's old orientation, through \<open>angleTo\<close> and \<open>slerp\<close> with its hemisphere flip and
  \<open>Number.EPSILON\<close> branch.
\<close>

theorem move_refines_turn:
  assumes "\<bar>wrap_angle (angle_y_camera_direction c + direction_offset keys - model_yaw c)\<bar> < pi"
  shows "yaw_quat (model_yaw (move delta keys c))
           = turn_model (yaw_quat (model_yaw c)) (angle_y_camera_direction c + direction_offset keys)"
  using turn_model_yaw [OF assms] by (simp add: move_def Let_def)

text \<open>
  C22. At an exact half turn the direction of the code's turn depends on how the target heading
  is written: \<open>\<pi>\<close> and \<open>-\<pi>\<close> are the same heading, yet from heading 0 the model turns by
  \<open>+0.2\<close> towards the first and by \<open>-0.2\<close> towards the second, because \<open>slerp\<close> follows the
  sign of the quaternion, not the geometry; the yaw model turns by \<open>+0.2\<close> in both cases.
\<close>

theorem half_turn_direction:
  "wrap_angle (- pi) = wrap_angle pi \<and>
   turn_model (yaw_quat 0) pi = yaw_quat turn_step \<and>
   turn_model (yaw_quat 0) (- pi) = yaw_quat (- turn_step) \<and>
   yaw_quat (- turn_step) \<noteq> yaw_quat turn_step \<and>
   rotate_towards 0 pi turn_step = turn_step \<and> rotate_towards 0 (- pi) turn_step = turn_step"
proof -
  have w1: "wrap_angle pi = pi" by (simp add: wrap_angle_id)
  have "- pi = pi + 2 * pi * of_int (- 1)" by simp
  then have w2: "wrap_angle (- pi) = pi" by (simp only: wrap_angle_shift w1)
  have p: "turn_model (yaw_quat 0) pi = yaw_quat turn_step"
    using turn_model_half_turn [of 1] by simp
  have m: "turn_model (yaw_quat 0) (- pi) = yaw_quat (- turn_step)"
    using turn_model_half_turn [of "- 1"] by simp
  have "0 < sin (turn_step / 2)" using turn_step_bounds pi_ge_two
    by (intro sin_gt_zero) (auto simp: turn_step_def)
  then have ne: "yaw_quat (- turn_step) \<noteq> yaw_quat turn_step" by (simp add: yaw_quat_eq)
  have "rotate_towards 0 pi turn_step = turn_step" "rotate_towards 0 (- pi) turn_step = turn_step"
    using turn_step_bounds by (simp_all add: rotate_towards_def w1 w2)
  with w1 w2 p m ne show ?thesis by simp
qed

section \<open>Witnesses\<close>

theorem move_refines_turn_witness:
  "\<bar>wrap_angle (angle_y_camera_direction (demo_ctrl\<lparr>model_yaw := 1/2\<rparr>) + direction_offset (press [W])
       - model_yaw (demo_ctrl\<lparr>model_yaw := 1/2\<rparr>))\<bar> < pi \<and>
   yaw_quat (model_yaw (move (1/60) (press [W]) (demo_ctrl\<lparr>model_yaw := 1/2\<rparr>)))
     = turn_model (yaw_quat (1/2))
         (angle_y_camera_direction (demo_ctrl\<lparr>model_yaw := 1/2\<rparr>) + direction_offset (press [W]))"
proof -
  let ?c = "demo_ctrl\<lparr>model_yaw := 1/2\<rparr>"
  have a: "angle_y_camera_direction ?c = 0"
    by (simp add: angle_y_camera_direction_def demo_defs update_camera_target_def Let_def atan2_def
        split: option.splits)
  have o: "direction_offset (press [W]) = 0" by (simp add: direction_offset_def press_def)
  have w: "wrap_angle (- (1/2)) = - (1/2)" by (rule wrap_angle_id) (use pi_ge_two in auto)
  have h: "\<bar>wrap_angle (angle_y_camera_direction ?c + direction_offset (press [W]) - model_yaw ?c)\<bar> < pi"
    using pi_ge_two by (simp add: a o w)
  show ?thesis using move_refines_turn [OF h, of "1/60"] h by simp
qed

end
