(* ===== verification/Playback.thy ===== *)
theory Playback
  imports Lifecycle
begin

text \<open>
  The clip clocks through \<open>update\<close>: the spec asks that a change of state "reset, fade in,
  and play the new clip" and that a repeated state not restart it ("prevents restart glitches
  on repeated frames"). With each action's clip time modelled (\<open>act_time\<close>, rewound by
  \<open>reset()\<close> and advanced with looping by \<open>mixer.update\<close>), both become statements about the
  state of the mixer after a frame.
\<close>

section \<open>Lemmas\<close>

lemma update_change_mixer:
  assumes u: "update delta keys c = Inr c'" and ch: "current_action c' \<noteq> current_action c"
  shows "\<exists>i j. animations_map c (current_action c) = Some i \<and> animations_map c (current_action c') = Some j
    \<and> anim_mixer c' = mixer_update delta (mixer_act j
         (play_action \<circ> fade_in (mixer_time (anim_mixer c)) fade_duration \<circ> reset_action)
         (mixer_act i (fade_out (mixer_time (anim_mixer c)) fade_duration) (anim_mixer c)))"
proof -
  let ?p = "select_play (direction_pressed keys) (toggle_run c)"
  have cp: "current_action c' = ?p" using update_Inr_frame [OF u] by simp
  with ch have ne: "current_action c \<noteq> ?p" by simp
  with u obtain c1 where t: "transition ?p c = Inr c1" and c': "c' = after_transition delta keys c1"
    by (auto simp: update_cases Let_def split: sum.splits)
  from t obtain i j where "animations_map c (current_action c) = Some i" "animations_map c ?p = Some j"
    by (auto simp: transition_def Let_def split: option.splits)
  with t c' cp show ?thesis by (auto simp: transition_ok)
qed

lemma update_same_mixer:
  assumes "update delta keys c = Inr c'" and "current_action c' = current_action c"
  shows "anim_mixer c' = mixer_update delta (anim_mixer c)"
proof -
  have "current_action c = select_play (direction_pressed keys) (toggle_run c)"
    using update_Inr_frame [OF assms(1)] assms(2) by simp
  with assms(1) have "c' = after_transition delta keys c" by (simp add: update_cases)
  then show ?thesis by simp
qed

section \<open>Properties\<close>

text \<open>
  C11. A change of clip restarts the incoming clip: when a frame switches to another clip, the
  action registered for it has been rewound by \<open>reset()\<close> and advanced by this frame only,
  so its clip time is exactly the frame's \<open>delta\<close> (for a \<open>delta\<close> shorter than the clip).
\<close>

theorem update_restarts_clip:
  assumes u: "update delta keys c = Inr c'" and ch: "current_action c' \<noteq> current_action c"
    and j: "animations_map c (current_action c') = Some j"
    and d: "0 \<le> delta" "delta < act_duration (actions (anim_mixer c) j)"
  shows "act_time (actions (anim_mixer c') j) = delta"
proof -
  obtain i j' where i: "animations_map c (current_action c) = Some i"
    and j': "animations_map c (current_action c') = Some j'"
    and m: "anim_mixer c' = mixer_update delta (mixer_act j'
         (play_action \<circ> fade_in (mixer_time (anim_mixer c)) fade_duration \<circ> reset_action)
         (mixer_act i (fade_out (mixer_time (anim_mixer c)) fade_duration) (anim_mixer c)))"
    using update_change_mixer [OF u ch] by blast
  from j j' have "j' = j" by simp
  with d show ?thesis
    by (auto simp: m mixer_update_def mixer_act_def Let_def update_time_def action_defs)
qed

text \<open>
  C12. A repeated selection does not restart its clip: when a frame keeps the current clip,
  the current action's clip time just moves on by \<open>delta\<close> from where it was (no
  \<open>reset()\<close>, the ``restart glitch'' the guard of line 68 prevents), whenever exactly one
  clip is current and the new time is still inside the clip.
\<close>

theorem update_continues_clip:
  assumes "one_current c" and u: "update delta keys c = Inr c'"
    and same: "current_action c' = current_action c"
    and j: "animations_map c (current_action c) = Some j"
    and d: "0 \<le> act_time (actions (anim_mixer c) j) + delta"
      "act_time (actions (anim_mixer c) j) + delta < act_duration (actions (anim_mixer c) j)"
  shows "act_time (actions (anim_mixer c') j) = act_time (actions (anim_mixer c) j) + delta"
proof -
  have "heading_in (actions (anim_mixer c) j)" using assms(1) j by (simp add: one_current_def)
  then have "act_active (actions (anim_mixer c) j) \<and> act_enabled (actions (anim_mixer c) j)"
    by (simp add: heading_in_def)
  with d show ?thesis
    by (simp add: update_same_mixer [OF u same] mixer_update_def Let_def update_time_def)
qed

section \<open>Witnesses\<close>

theorem update_restarts_clip_witness:
  "update (1/10) (press [W]) demo_ctrl = Inr scene_run \<and>
   current_action scene_run \<noteq> current_action demo_ctrl \<and>
   animations_map demo_ctrl (current_action scene_run) = Some 2 \<and>
   0 \<le> (1/10::real) \<and> 1/10 < act_duration (actions (anim_mixer demo_ctrl) 2) \<and>
   act_time (actions (anim_mixer scene_run) 2) = 1/10"
proof -
  have h: "current_action scene_run \<noteq> current_action demo_ctrl"
    "animations_map demo_ctrl (current_action scene_run) = Some 2"
    "0 \<le> (1/10::real)" "1/10 < act_duration (actions (anim_mixer demo_ctrl) 2)"
    by (simp_all add: scene_run_fields demo_mixer0 demo_mixer_def mixer_act_def new_action_def action_defs)
  show ?thesis using update_restarts_clip [OF update_scene_run h] update_scene_run h by simp
qed

theorem update_continues_clip_witness:
  "one_current scene_run \<and> animations_map scene_run (current_action scene_run) = Some 2 \<and>
   (\<exists>c'. update (1/20) (press [W]) scene_run = Inr c' \<and> current_action c' = current_action scene_run \<and>
      act_time (actions (anim_mixer c') 2) = 1/10 + 1/20)"
proof -
  have r: "registry_ok scene_run" by (simp add: registry_ok_def scene_run_fields demo_anims_def)
  obtain c' where u: "update (1/20) (press [W]) scene_run = Inr c'"
    using update_Inr_exists [OF r] by blast
  have same: "current_action c' = current_action scene_run"
    using update_Inr_frame [OF u] by (simp add: scene_run_fields select_play_def)
  have j: "animations_map scene_run (current_action scene_run) = Some 2" by (simp add: scene_run_fields)
  have d: "0 \<le> act_time (actions (anim_mixer scene_run) 2) + 1/20"
    "act_time (actions (anim_mixer scene_run) 2) + 1/20 < act_duration (actions (anim_mixer scene_run) 2)"
    by (simp_all add: scene_run_mixer)
  have "act_time (actions (anim_mixer c') 2) = 1/10 + 1/20"
    using update_continues_clip [OF scene_run_one_current u same j d] by (simp add: scene_run_mixer)
  with u same j scene_run_one_current show ?thesis by blast
qed

end
