(* ===== verification/Spec2Isabelle.thy ===== *)
theory Spec2Isabelle
  imports Lifecycle Heading Turning Playback
begin

text \<open>
  A verification of \<open>src/src/characterControls.ts\<close>, the class \<open>CharacterControls\<close>
  of the three.js third-person control example. The class owns a model, an animation mixer
  with a map from clip names to actions, the camera and its orbit controls. Once per rendered
  frame the application calls \<open>update(delta, keysPressed)\<close>, which selects the clip
  (Run, Walk or Idle) from the keys and the run toggle, cross-fades to it when it changed,
  advances the mixer, and when moving turns the model towards the camera-relative heading and
  moves model and camera by the same displacement; \<open>updateCameraTarget\<close> then puts
  the orbit target one unit above the model. \<open>switchRunToggle\<close> flips the toggle.

  \<^bold>\<open>Theories.\<close>
  \<^item> \<open>Prelude\<close>: the vector record \<open>vec3\<close>, action identities \<open>aid\<close>, the horizontal
    length \<open>hlen\<close>, the theorem collections and generic real-arithmetic lemmas.
  \<^item> \<open>Engine\<close>: the three.js and \<open>Math\<close> primitives the controller calls, modelled from
    their library sources: \<open>Vector3.length/normalize\<close>, \<open>Quaternion.setFromAxisAngle\<close>,
    \<open>Vector3.applyQuaternion/applyAxisAngle\<close> (proved to be the rotation \<open>rot_y\<close> about
    the y axis), \<open>Math.atan2\<close> case by case, and \<open>Quaternion.rotateTowards\<close> on yaw angles
    (\<open>rotate_towards\<close>: step by at most the given angle along the shorter arc).
  \<^item> \<open>Animation\<close>: the bookkeeping of \<open>AnimationAction\<close> (\<open>play\<close>, \<open>reset\<close>,
    \<open>fadeIn\<close>, \<open>fadeOut\<close>, the interpolant, \<open>_updateWeight\<close>, and \<open>_updateTime\<close>
    for the default \<open>LoopRepeat\<close> mode: the clip-local time advanced and wrapped into
    \<open>[0, duration)\<close>) and \<open>AnimationMixer.update\<close>.
  \<^item> \<open>Keys\<close>: key maps as JavaScript values, truthiness and \<open>== true\<close>, the key constants
    of \<open>./utils\<close> (not in the sources, modelled from the spec), \<open>directionPressed\<close>
    (line 57) and \<open>directionOffset\<close> (lines 138--162), with the intent-vector specification.
  \<^item> \<open>Controls\<close>: the record \<open>ctrl\<close> of the class fields (lines 5--25), \<open>construct\<close>
    (constructor, lines 27--48), \<open>switch_run_toggle\<close> (51--53), \<open>update\<close> (55--124)
    as \<open>select_play\<close>, \<open>transition\<close>, \<open>after_transition\<close> and \<open>move\<close>, and
    \<open>update_camera_target\<close> (126--136); the invariants \<open>registry_ok\<close> and
    \<open>target_tracks\<close>; the example scene \<open>demo_ctrl\<close> (three clips, camera behind the model).
  \<^item> \<open>Fading\<close>: the action weights through \<open>update\<close>: one current clip, cross-fade, settling,
    and the overshoot of a second change within the fade window.
  \<^item> \<open>Lifecycle\<close>: the constructor's \<open>forEach\<close> over the entries of the \<open>Map\<close>
    (\<open>for_each_play\<close>, \<open>construct_js\<close>, proved equal to \<open>construct\<close> over \<open>map_of\<close>), and
    the states reachable from a constructed object by frames and run toggles in any order
    (the inductive \<open>reach\<close>, thrown frames included), with the invariants proved over it by
    rule induction: the well-formedness \<open>ctrl_wf\<close>, one current clip and no throw under a
    complete registry, and that once the fades have run out exactly one clip shows
    (the current clip at weight 1, the registered weights summing to 1).
  \<^item> \<open>Heading\<close>: turning and walking together, and the render loop: \<open>run_frames\<close>
    (n frames, by recursion on n) and \<open>frames_until_facing\<close> (frames until the model faces
    its heading, a \<open>partial_function (option)\<close> whose termination is a theorem).
  \<^item> \<open>Turning\<close>: the quaternion code of lines 96--100 (\<open>turn_model\<close>, \<open>yaw_quat\<close>)
    with \<open>Quaternion.angleTo\<close>, \<open>slerp\<close> (every branch, \<open>Number.EPSILON\<close> included) and
    \<open>rotateTowards\<close> from the three.js sources; the proof that it refines the yaw model short of a
    half turn, and the half-turn case where it does not.
  \<^item> \<open>Playback\<close>: the clip clocks through \<open>update\<close>: the mixer after a frame that
    changes clip and after one that keeps it, the restart of the incoming clip from 0 by
    \<open>reset()\<close>, and the continuation of a repeated clip.
  \<^item> This theory: properties of whole frames: the spec's end-to-end scenario, the absence of
    fade restarts on repeated input, and the locality of a cross-fade.

  \<^bold>\<open>Correspondence.\<close> The controller's state is one record; the objects it mutates (model
  position and rotation, camera position, the orbit target, the scratch vectors
  \<open>walkDirection\<close> and \<open>rotateQuarternion\<close>) are its fields, and actions are kept in the
  mixer's store indexed by identity so that two clip names may share an action, as they may in
  the code. \<open>update\<close> returns \<open>(js_error \<times> ctrl) + ctrl\<close>: \<open>Inl\<close> is the TypeError thrown
  by a missing clip together with the state at the throw (an earlier \<open>fadeOut\<close> has already
  run). JavaScript numbers are reals: rounding is not modelled. The model's quaternion is kept
  as its yaw angle, since every rotation the controller applies is about the y axis; \<open>Turning\<close>
  proves that the quaternion code computes exactly the yaw model's turn whenever the heading
  error is short of a half turn. At an exact half turn the code turns by 0.2 in a direction
  fixed by the sign of the target quaternion, where the yaw model always turns by \<open>+0.2\<close>;
  the properties of turning proved over the yaw model (the 0.2 bound per frame, the progress
  towards the heading, the frame counts) do not depend on that direction.

  \<^bold>\<open>Results.\<close> With a complete registry \<open>update\<close> never throws; without one it throws
  after fading out; the selection is level-triggered; the orbit target stays above the model and
  the camera keeps its offset; a frame moves the model by exactly \<open>5|delta|\<close> (Run) or
  \<open>2|delta|\<close> (Walk) at any non-vertical camera pitch; the model turns at most 0.2 rad per frame
  and faces its heading after exactly \<open>max 1 \<lceil>e/0.2\<rceil>\<close> frames for a heading error
  \<open>e\<close>, so within \<open>\<lceil>\<pi>/0.2\<rceil>\<close> (the loop \<open>frames_until_facing\<close> returns; \<open>run_frames\<close>
  is recursion on the frame count, so it is total); it walks in the direction it is turned to; \<open>directionOffset\<close> is
  \<open>atan2\<close> of the intent vector; one clip is current at all times and a single change is a
  proper cross-fade, while two changes within 0.2 overshoot the total weight; in every reachable
  state, once the scheduled fades have run out, the current clip has weight 1 and the
  registered weights sum to exactly 1. Every state
  reachable from a constructed object is well formed, and with a complete registry of fresh
  actions no reachable frame throws. The constructor's loop is its lookup abstraction. A
  change of clip restarts the incoming clip from time 0, and a repeated selection continues its
  clip where it was.

  \<^bold>\<open>Not modelled.\<close> Scene setup, asset loading and input wiring of the application
  (outside \<open>src/\<close>); its render loop only as sequences of calls of the public operations
  (\<open>run_frames\<close>, \<open>frames_until_facing\<close>, \<open>reach\<close>), modelled from the spec;
  OrbitControls beyond the camera's forward axis and the shared target; the pose blending of
  the mixer (the property bindings and interpolants of the tracks), which is output to the
  scene graph and read by nothing in the controller; the loop modes other than the default
  \<open>LoopRepeat\<close>, the \<open>finished\<close> and \<open>loop\<close> events, \<open>timeScale\<close> and warping
  (never set by the controller), and the NaN clip time of a clip of duration 0;
  IEEE-754 rounding of JavaScript numbers, which are reals here.
\<close>

section \<open>Facts of the example scene\<close>

lemma walk_dir_ahead: "walk_dir (vec 0 0 (-1)) 0 = vec 0 0 (-1)"
  by (simp add: walk_dir_rot rot_y_def normalize_def vec_defs vec_def)

lemma no_keys_not_pressed: "\<not> direction_pressed (\<lambda>_. JUndefined)"
  by (simp add: direction_pressed_iff)

lemma press_W_offset: "direction_offset (press [W]) = 0"
  by (simp add: direction_offset_def press_def)

lemma demo_camera: "camera_pos demo_ctrl = vec 0 2 5" "camera_target demo_ctrl = vec 0 1 0"
  by (simp_all add: demo_defs Let_def update_camera_target_def vec_def split: option.splits)

section \<open>Properties of whole frames\<close>

text \<open>
  C14. The spec's end-to-end scenario: from the example scene in Idle, a frame of 0.016 s with
  no keys keeps Idle, starts no fade (only the mixer clock advances) and leaves the model
  where it is; a following frame with the forward key selects Run and moves the model
  0.08 forward along the camera's view, the camera with it, and the orbit target to one unit
  above the new model position.
\<close>

theorem end_to_end_scenario:
  "\<exists>c1 c2. update (2/125) (\<lambda>_. JUndefined) demo_ctrl = Inr c1 \<and> current_action c1 = ''Idle''
     \<and> anim_mixer c1 = mixer_update (2/125) (anim_mixer demo_ctrl)
     \<and> model_pos c1 = model_pos demo_ctrl \<and> camera_target c1 = vec 0 1 0
     \<and> update (2/125) (press [W]) c1 = Inr c2 \<and> current_action c2 = ''Run''
     \<and> model_pos c2 = vec 0 0 (-2/25) \<and> camera_target c2 = vec 0 1 (-2/25)
     \<and> camera_pos c2 = vec 0 2 (123/25)"
proof -
  define c1 where "c1 = after_transition (2/125) (\<lambda>_. JUndefined) demo_ctrl"
  have u1: "update (2/125) (\<lambda>_. JUndefined) demo_ctrl = Inr c1"
    by (simp add: c1_def update_cases select_play_def no_keys_not_pressed)
  have f1: "current_action c1 = ''Idle''" "animations_map c1 = demo_anims"
    "anim_mixer c1 = mixer_update (2/125) (anim_mixer demo_ctrl)"
    "model_pos c1 = vec 0 0 0" "camera_pos c1 = vec 0 2 5" "camera_target c1 = vec 0 1 0"
    "camera_dir c1 = vec 0 0 (-1)" "toggle_run c1 = True"
    by (simp_all add: c1_def after_transition_def Let_def demo_camera)
  define c2 where "c2 = after_transition (2/125) (press [W]) (c1\<lparr>anim_mixer := mixer_act 2
            (play_action \<circ> fade_in (mixer_time (anim_mixer c1)) fade_duration \<circ> reset_action)
            (mixer_act 0 (fade_out (mixer_time (anim_mixer c1)) fade_duration) (anim_mixer c1)),
          current_action := ''Run''\<rparr>)"
  have u2: "update (2/125) (press [W]) c1 = Inr c2"
    unfolding c2_def by (rule update_switch) (simp_all add: f1 select_play_def)
  have f2: "current_action c2 = ''Run''" "model_pos c2 = vec 0 0 (-2/25)"
    "camera_target c2 = vec 0 1 (-2/25)" "camera_pos c2 = vec 0 2 (123/25)"
    by (simp_all add: c2_def after_transition_def Let_def move_def f1 press_W_offset walk_dir_ahead velocity_def
        run_velocity_def update_camera_target_def vec_eq_iff)
  show ?thesis
    by (rule exI [of _ c1], rule exI [of _ c2]) (simp add: u1 u2 f1 f2)
qed

text \<open>
  C10. Selection is idempotent on repeated input: after any successful frame, a second frame
  with the same keys selects the same clip and starts no fade; the mixer only advances.
\<close>

theorem update_repeat_no_fade:
  assumes "update delta keys c = Inr c1"
  shows "\<exists>c2. update delta' keys c1 = Inr c2 \<and> current_action c2 = current_action c1
           \<and> anim_mixer c2 = mixer_update delta' (anim_mixer c1)"
proof -
  from assms obtain c0 where "c1 = after_transition delta keys c0"
    "current_action c0 = select_play (direction_pressed keys) (toggle_run c)"
    "toggle_run c0 = toggle_run c"
    by (rule update_Inr)
  then have "current_action c1 = select_play (direction_pressed keys) (toggle_run c1)" by simp
  then show ?thesis by (simp add: update_cases)
qed

text \<open>
  C13. A frame touches at most two actions: every registered action other than the outgoing
  and the incoming one only has its weight bookkeeping advanced by the mixer.
\<close>

theorem update_touches_two:
  assumes u: "update delta keys c = Inr c'"
    and i: "animations_map c (current_action c) = Some i"
    and j: "animations_map c (current_action c') = Some j"
    and k: "k \<noteq> i" "k \<noteq> j"
  shows "actions (anim_mixer c') k
           = update_weight (mixer_time (anim_mixer c) + delta) (update_time delta (actions (anim_mixer c) k))"
proof (cases "current_action c = select_play (direction_pressed keys) (toggle_run c)")
  case True
  with u show ?thesis by (auto simp: update_cases mixer_update_def Let_def)
next
  case False
  let ?p = "select_play (direction_pressed keys) (toggle_run c)"
  have "current_action c' = ?p" using u by (rule update_Inr) simp
  with j have "animations_map c ?p = Some j" by simp
  with u False i k show ?thesis
    by (auto simp: update_cases transition_ok mixer_update_def mixer_act_def Let_def)
qed

section \<open>Witnesses\<close>

theorem update_repeat_no_fade_witness:
  "\<exists>c1. update (1/2) (press [W]) demo_ctrl = Inr c1 \<and>
     (\<exists>c2. update (1/60) (press [W]) c1 = Inr c2 \<and> current_action c2 = current_action c1
        \<and> anim_mixer c2 = mixer_update (1/60) (anim_mixer c1))"
proof -
  obtain c1 where u: "update (1/2) (press [W]) demo_ctrl = Inr c1"
    using update_Inr_exists [OF demo_registry_ok] by blast
  with update_repeat_no_fade [OF u] show ?thesis by blast
qed

theorem update_touches_two_witness:
  "update (1/10) (press [W]) demo_ctrl = Inr scene_run \<and>
   animations_map demo_ctrl (current_action demo_ctrl) = Some 0 \<and>
   animations_map demo_ctrl (current_action scene_run) = Some 2 \<and>
   actions (anim_mixer scene_run) 1
     = update_weight (mixer_time (anim_mixer demo_ctrl) + 1/10)
         (update_time (1/10) (actions (anim_mixer demo_ctrl) 1))"
proof -
  have h: "animations_map demo_ctrl (current_action demo_ctrl) = Some 0"
    "animations_map demo_ctrl (current_action scene_run) = Some 2"
    by (simp_all add: scene_run_fields)
  show ?thesis
    using update_touches_two [OF update_scene_run h, of 1] update_scene_run h by simp
qed

end
